theory Spec2Isabelle
  imports Main "HOL-Library.Word" "HOL-Library.Signed_Division"
begin

unbundle bit_operations_syntax

section \<open>The MS58XX altimeter driver (drivers/sensors/ms58xx.c)\<close>

subsection \<open>Machine types\<close>

type_synonym u8 = "8 word"
type_synonym u16 = "16 word"
type_synonym u32 = "32 word"
type_synonym s32 = "32 word"
type_synonym s64 = "64 word"

text \<open>
  C division on signed machine integers truncates towards zero.  The operands are read
  as two's complement numbers, divided with truncation, and the quotient is stored back
  at the same width.
\<close>

definition sdiv_w :: "'a::len word \<Rightarrow> 'a word \<Rightarrow> 'a word" where
  "sdiv_w a b = word_of_int (sint a sdiv sint b)"

text \<open>
  Return codes are C \<open>int\<close>s that the driver only compares with zero and hands on, so they
  are kept as integers.  \<open>OK\<close> and the errno numbers come from the system headers.
\<close>

definition OK :: int where "OK = 0"
definition EINVAL :: int where "EINVAL = 22"
definition ENODEV :: int where "ENODEV = 19"
definition ENOMEM :: int where "ENOMEM = 12"

subsection \<open>Register definitions\<close>

definition MS58XX_RESET_REG :: u8 where "MS58XX_RESET_REG = 0x1e"
definition MS58XX_PRESS_REG :: u8 where "MS58XX_PRESS_REG = 0x40"
definition MS58XX_TEMP_REG :: u8 where "MS58XX_TEMP_REG = 0x50"
definition MS58XX_ADC_REG :: u8 where "MS58XX_ADC_REG = 0x00"
definition MS58XX_PROM_REG :: nat where "MS58XX_PROM_REG = 0xa0"
definition MS58XX_PROM_LEN :: nat where "MS58XX_PROM_LEN = 8"

subsection \<open>The device structure\<close>

text \<open>
  The model enumeration \<open>enum ms58xx_model_e\<close> is declared in the driver's header; its
  members are the case labels the driver switches over.
\<close>

datatype ms58xx_model_e =
    MS58XX_MODEL_MS5803_02
  | MS58XX_MODEL_MS5803_05
  | MS58XX_MODEL_MS5803_07
  | MS58XX_MODEL_MS5803_14
  | MS58XX_MODEL_MS5803_30
  | MS58XX_MODEL_MS5805_02
  | MS58XX_MODEL_MS5806_02
  | MS58XX_MODEL_MS5837_30

text \<open>
  \<open>struct ms58xx_dev_s\<close>, field by field.  The \<open>i2c\<close> pointer is not a field of the
  record: the bus it points to is threaded through every function as a separate state.
\<close>

record ms58xx_dev_s =
  addr :: u8
  model :: ms58xx_model_e
  crcindex :: u8
  crcshift :: u8
  temp :: s32
  press :: s32
  osr :: u8
  delay :: u32
  c1 :: u16
  c2 :: u16
  c3 :: u16
  c4 :: u16
  c5 :: u16
  c6 :: u16
  c7 :: u8
  c8 :: u8
  c1s :: u8
  c2s :: u8
  c3s :: u8
  c4s :: u8
  diffmull :: u8
  diffdivls :: u8
  offmull :: u8
  offdivls :: u8
  sensmull :: u8
  sensdivls :: u8
  offmulvl :: u8
  sensmulvl :: u8
  diffmulh :: u8
  diffdivhs :: u8
  offmulh :: u8
  offdivhs :: u8
  sensmulh :: u8
  sensdivhs :: u8
  pressdivs :: u8

subsection \<open>The I2C bus and the delay loop\<close>

text \<open>
  The bus is an external collaborator.  It is modelled as a device that answers every
  request from the whole history of requests made so far: \<open>respond\<close> maps the history
  (the current request last) to a return code and the bytes left in the caller's buffer.
  Every transfer and every busy-wait is appended to \<open>history\<close>, so what the driver sent,
  and in which order, can be read back.  A negative return code is a failed transfer.
\<close>

datatype i2c_event =
    I2C_Write u8 "u8 list"
  | I2C_Read u8 nat
  | Udelay u32

record i2c_reply =
  rc :: int
  buf :: "nat \<Rightarrow> u8"

record i2c_bus =
  respond :: "i2c_event list \<Rightarrow> i2c_reply"
  history :: "i2c_event list"

text \<open>\<open>I2C_SETADDRESS(i2c, a, 7)\<close> followed by \<open>I2C_WRITE(i2c, bytes, len)\<close>.\<close>

definition I2C_WRITE :: "u8 \<Rightarrow> u8 list \<Rightarrow> i2c_bus \<Rightarrow> int \<times> i2c_bus" where
  "I2C_WRITE a bytes bus =
     (let h = history bus @ [I2C_Write a bytes]
      in (rc (respond bus h), bus\<lparr>history := h\<rparr>))"

text \<open>\<open>I2C_READ(i2c, buffer, len)\<close> at the address set before.\<close>

definition I2C_READ :: "u8 \<Rightarrow> nat \<Rightarrow> i2c_bus \<Rightarrow> (int \<times> (nat \<Rightarrow> u8)) \<times> i2c_bus" where
  "I2C_READ a len bus =
     (let h = history bus @ [I2C_Read a len]
      in ((rc (respond bus h), buf (respond bus h)), bus\<lparr>history := h\<rparr>))"

definition up_udelay :: "u32 \<Rightarrow> i2c_bus \<Rightarrow> i2c_bus" where
  "up_udelay us bus = bus\<lparr>history := history bus @ [Udelay us]\<rparr>"

subsection \<open>CRC calculation\<close>

text \<open>One round of the inner loop of \<open>ms58xx_crc\<close>.\<close>

definition crc_shift :: "u16 \<Rightarrow> u16" where
  "crc_shift crc =
     (let xor = (crc AND 0x8000) \<noteq> 0;
          crc' = push_bit 1 crc
      in if xor then crc' XOR 0x3000 else crc')"

text \<open>The inner loop, \<open>for (j = 0; j < 8; j++)\<close>, counted down.\<close>

fun crc_bits :: "nat \<Rightarrow> u16 \<Rightarrow> u16" where
  "crc_bits 0 crc = crc"
| "crc_bits (Suc j) crc = crc_bits j (crc_shift crc)"

text \<open>The outer loop over the bytes \<open>src[0 .. len-1]\<close>.\<close>

fun crc_loop :: "u8 list \<Rightarrow> u16 \<Rightarrow> u16" where
  "crc_loop [] crc = crc"
| "crc_loop (b # src) crc = crc_loop src (crc_bits 8 (crc XOR ucast b))"

definition ms58xx_crc :: "u8 list \<Rightarrow> u8" where
  "ms58xx_crc src = ucast (drop_bit 12 (crc_loop src 0))"

subsection \<open>Oversampling ratio\<close>

definition ms58xx_setosr :: "ms58xx_dev_s \<Rightarrow> u16 \<Rightarrow> int \<times> ms58xx_dev_s" where
  "ms58xx_setosr priv ratio =
     (let (ret, priv1) =
        (if ratio = 256 then (OK, priv\<lparr>delay := 600\<rparr>)
         else if ratio = 512 then (OK, priv\<lparr>delay := 1170\<rparr>)
         else if ratio = 1024 then (OK, priv\<lparr>delay := 2280\<rparr>)
         else if ratio = 2048 then (OK, priv\<lparr>delay := 4540\<rparr>)
         else if ratio = 4096 then (OK, priv\<lparr>delay := 9040\<rparr>)
         else if ratio = 8192 then
           (case model priv of
              MS58XX_MODEL_MS5805_02 \<Rightarrow> (OK, priv\<lparr>delay := 18080\<rparr>)
            | MS58XX_MODEL_MS5837_30 \<Rightarrow> (OK, priv\<lparr>delay := 18080\<rparr>)
            | _ \<Rightarrow> (- EINVAL, priv))
         else (- EINVAL, priv))
      in if ret = OK
         then (ret, priv1\<lparr>osr := word_of_int ((uint ratio div 256 - 1) * 2)\<rparr>)
         else (ret, priv1))"

subsection \<open>I2C helpers\<close>

text \<open>
  A helper that returns a value through a pointer yields \<open>Inl ret\<close> where the C function
  returns early with the failed transfer's code and leaves the pointer's target alone,
  and \<open>Inr (ret, value)\<close> where it stores the value and returns \<open>ret\<close>.
\<close>

definition ms58xx_readu16 ::
    "ms58xx_dev_s \<Rightarrow> u8 \<Rightarrow> i2c_bus \<Rightarrow> (int + int \<times> u16) \<times> i2c_bus" where
  "ms58xx_readu16 priv regaddr bus =
     (let (ret, bus1) = I2C_WRITE (addr priv) [regaddr] bus
      in if ret < 0 then (Inl ret, bus1)
         else
           (let ((ret2, buffer), bus2) = I2C_READ (addr priv) 2 bus1
            in if ret2 < 0 then (Inl ret2, bus2)
               else (Inr (ret2, push_bit 8 (ucast (buffer 0)) OR ucast (buffer 1)), bus2)))"

definition ms58xx_readadc ::
    "ms58xx_dev_s \<Rightarrow> i2c_bus \<Rightarrow> (int + int \<times> u32) \<times> i2c_bus" where
  "ms58xx_readadc priv bus =
     (let regaddr = MS58XX_ADC_REG;
          (ret, bus1) = I2C_WRITE (addr priv) [regaddr] bus
      in if ret < 0 then (Inl ret, bus1)
         else
           (let ((ret2, buffer), bus2) = I2C_READ (addr priv) 3 bus1
            in if ret2 < 0 then (Inl ret2, bus2)
               else (Inr (ret2,
                          push_bit 16 (ucast (buffer 0)) OR
                          push_bit 8 (ucast (buffer 1)) OR
                          ucast (buffer 2)), bus2)))"

subsection \<open>Reading the PROM\<close>

text \<open>
  The read loop of \<open>ms58xx_readprom\<close>, \<open>for (i = 0; i < len; i++)\<close>: \<open>i\<close> is the index,
  \<open>n\<close> the number of rounds left, \<open>prom\<close> the words stored so far.  A failed read leaves
  the function at once with the transfer's code.
\<close>

fun readprom_loop ::
    "ms58xx_dev_s \<Rightarrow> nat \<Rightarrow> nat \<Rightarrow> int \<Rightarrow> u16 list \<Rightarrow> i2c_bus
       \<Rightarrow> (int + int \<times> u16 list) \<times> i2c_bus" where
  "readprom_loop priv i 0 ret prom bus = (Inr (ret, prom), bus)"
| "readprom_loop priv i (Suc n) ret prom bus =
     (case ms58xx_readu16 priv (word_of_nat (MS58XX_PROM_REG + i * 2)) bus of
        (Inl e, bus1) \<Rightarrow> (Inl e, bus1)
      | (Inr (ret1, w), bus1) \<Rightarrow> readprom_loop priv (i + 1) n ret1 (prom @ [w]) bus1)"

text \<open>
  \<open>(uint8_t *)prom\<close>: the bytes of the word array as they lie in memory.  Their order
  within each word is the host's byte order, which is made a parameter.
\<close>

definition word_bytes :: "bool \<Rightarrow> u16 \<Rightarrow> u8 list" where
  "word_bytes big_endian w =
     (if big_endian then [ucast (drop_bit 8 w), ucast w]
      else [ucast w, ucast (drop_bit 8 w)])"

definition prom_bytes :: "bool \<Rightarrow> u16 list \<Rightarrow> u8 list" where
  "prom_bytes big_endian prom = concat (map (word_bytes big_endian) prom)"

text \<open>The number of words read from the bus, and where the CRC nibble sits.\<close>

definition prom_len :: "ms58xx_model_e \<Rightarrow> nat" where
  "prom_len m =
     (case m of
        MS58XX_MODEL_MS5805_02 \<Rightarrow> MS58XX_PROM_LEN - 1
      | MS58XX_MODEL_MS5837_30 \<Rightarrow> MS58XX_PROM_LEN - 1
      | _ \<Rightarrow> MS58XX_PROM_LEN)"

definition prom_crcindex :: "ms58xx_model_e \<Rightarrow> nat" where
  "prom_crcindex m =
     (case m of
        MS58XX_MODEL_MS5805_02 \<Rightarrow> 0
      | MS58XX_MODEL_MS5837_30 \<Rightarrow> 0
      | _ \<Rightarrow> 7)"

definition prom_crcshift :: "ms58xx_model_e \<Rightarrow> nat" where
  "prom_crcshift m =
     (case m of
        MS58XX_MODEL_MS5805_02 \<Rightarrow> 12
      | MS58XX_MODEL_MS5837_30 \<Rightarrow> 12
      | _ \<Rightarrow> 0)"

text \<open>
  The local array after the loop: for the two seven-word models \<open>prom[7]\<close> was set to
  zero before the loop and is not read; for the others all eight words were read.
\<close>

definition prom_fill :: "ms58xx_model_e \<Rightarrow> u16 list \<Rightarrow> u16 list" where
  "prom_fill m ws =
     (case m of
        MS58XX_MODEL_MS5805_02 \<Rightarrow> ws @ [0]
      | MS58XX_MODEL_MS5837_30 \<Rightarrow> ws @ [0]
      | _ \<Rightarrow> ws)"

text \<open>The last switch of \<open>ms58xx_readprom\<close>: decoding C7 and C8.\<close>

definition prom_c7 :: "ms58xx_model_e \<Rightarrow> u16 list \<Rightarrow> u8" where
  "prom_c7 m prom =
     (case m of
        MS58XX_MODEL_MS5803_07 \<Rightarrow> ucast (drop_bit 4 ((prom ! 7) AND 0x03f0))
      | MS58XX_MODEL_MS5806_02 \<Rightarrow> ucast (drop_bit 4 ((prom ! 7) AND 0x0ff0))
      | _ \<Rightarrow> 0)"

definition prom_c8 :: "ms58xx_model_e \<Rightarrow> u16 list \<Rightarrow> u8" where
  "prom_c8 m prom =
     (case m of
        MS58XX_MODEL_MS5803_07 \<Rightarrow> ucast (drop_bit 10 ((prom ! 7) AND 0xf700))
      | _ \<Rightarrow> 0)"

text \<open>
  Lines 418 to 420: the mask of the CRC nibble, the nibble taken out of the block, and
  the block with the nibble cleared.
\<close>

definition prom_crcmask :: "ms58xx_model_e \<Rightarrow> u16" where
  "prom_crcmask m = push_bit (prom_crcshift m) 0xf"

definition prom_crc :: "ms58xx_model_e \<Rightarrow> u16 list \<Rightarrow> u8" where
  "prom_crc m prom =
     ucast (drop_bit (prom_crcshift m) ((prom ! prom_crcindex m) AND prom_crcmask m))"

definition prom_masked :: "ms58xx_model_e \<Rightarrow> u16 list \<Rightarrow> u16 list" where
  "prom_masked m prom =
     prom[prom_crcindex m := (prom ! prom_crcindex m) AND NOT (prom_crcmask m)]"

text \<open>Lines 428 to 457: the stores into the device structure.\<close>

definition store_coefficients :: "ms58xx_dev_s \<Rightarrow> u16 list \<Rightarrow> ms58xx_dev_s" where
  "store_coefficients priv prom =
     priv\<lparr>c1 := prom ! 1, c2 := prom ! 2, c3 := prom ! 3,
          c4 := prom ! 4, c5 := prom ! 5, c6 := prom ! 6,
          c7 := prom_c7 (model priv) prom,
          c8 := prom_c8 (model priv) prom\<rparr>"

definition ms58xx_readprom ::
    "bool \<Rightarrow> ms58xx_dev_s \<Rightarrow> i2c_bus \<Rightarrow> (int \<times> ms58xx_dev_s) \<times> i2c_bus" where
  "ms58xx_readprom big_endian priv bus =
     (case readprom_loop priv 0 (prom_len (model priv)) 0 [] bus of
        (Inl e, bus1) \<Rightarrow> ((e, priv), bus1)
      | (Inr (ret, ws), bus1) \<Rightarrow>
          (let prom0 = prom_fill (model priv) ws;
               crc = prom_crc (model priv) prom0;
               prom = prom_masked (model priv) prom0
           in if crc \<noteq> ms58xx_crc (prom_bytes big_endian prom)
              then ((- ENODEV, priv), bus1)
              else ((ret, store_coefficients priv prom), bus1)))"

subsection \<open>Reset\<close>

definition ms58xx_reset ::
    "bool \<Rightarrow> ms58xx_dev_s \<Rightarrow> i2c_bus \<Rightarrow> (int \<times> ms58xx_dev_s) \<times> i2c_bus" where
  "ms58xx_reset big_endian priv bus =
     (let regaddr = MS58XX_RESET_REG;
          (ret, bus1) = I2C_WRITE (addr priv) [regaddr] bus
      in if ret < 0 then ((ret, priv), bus1)
         else ms58xx_readprom big_endian priv bus1)"

subsection \<open>Conversion\<close>

text \<open>
  \<open>ms58xx_convert\<close>: the result of the trigger write is only logged; \<open>ret\<close> is then
  overwritten by the result of \<open>ms58xx_readadc\<close>.
\<close>

definition ms58xx_convert ::
    "ms58xx_dev_s \<Rightarrow> u8 \<Rightarrow> i2c_bus \<Rightarrow> (int + int \<times> u32) \<times> i2c_bus" where
  "ms58xx_convert priv regaddr0 bus =
     (let regaddr = regaddr0 OR osr priv;
          (ret, bus1) = I2C_WRITE (addr priv) [regaddr] bus;
          bus2 = up_udelay (delay priv) bus1
      in case ms58xx_readadc priv bus2 of
           (Inl e, bus3) \<Rightarrow> (Inl e, bus3)
         | (Inr (ret3, regval), bus3) \<Rightarrow> (Inr (ret3, regval), bus3))"

subsection \<open>Measurement\<close>

text \<open>
  The first statement of the compensation in \<open>ms58xx_measure\<close>:
  \<^verbatim>\<open>diff = (int32_t)rawtemp - (int32_t)priv->c5 / ((int32_t)1 << 8);\<close>
\<close>

definition measure_diff :: "u32 \<Rightarrow> u16 \<Rightarrow> s32" where
  "measure_diff rawtemp c5v = rawtemp - sdiv_w (ucast c5v) (push_bit 8 1)"

text \<open>
  The arithmetic of \<open>ms58xx_measure\<close> between the two conversions and the final stores.
  \<open>int64_t\<close> values are 64-bit words read as two's complement; a cast to \<open>int32_t\<close> keeps
  the low 32 bits.  \<open>vdd\<close> is the configuration constant \<open>CONFIG_MS58XX_VDD\<close>.
\<close>

definition ms58xx_compensate :: "int \<Rightarrow> ms58xx_dev_s \<Rightarrow> u32 \<Rightarrow> u32 \<Rightarrow> s32 \<times> s32" where
  "ms58xx_compensate vdd priv rawpress rawtemp =
     (let diff = measure_diff rawtemp (c5 priv);
          temp0 = (ucast ((2000 :: s64) +
                     sdiv_w (scast diff * ucast (c6 priv)) (push_bit 23 1)) :: s32);
          off0 = (ucast (c2 priv) * push_bit (unat (c2s priv)) 1 +
                    sdiv_w (ucast (c4 priv) * scast diff) (push_bit (unat (c4s priv)) 1) :: s64);
          sens0 = (ucast (c1 priv) * push_bit (unat (c1s priv)) 1 +
                    sdiv_w (ucast (c3 priv) * scast diff) (push_bit (unat (c3s priv)) 1) :: s64);
          low = (temp0 <s 2000);
          verylow = (temp0 <s - 1500);
          diffmul = (if low then ucast (diffmull priv) else ucast (diffmulh priv) :: s64);
          diffdiv = (if low then push_bit (unat (diffdivls priv)) 1
                     else push_bit (unat (diffdivhs priv)) 1 :: s64);
          offmula = (if low then ucast (offmull priv) else ucast (offmulh priv) :: s64);
          offdiva = (if low then push_bit (unat (offdivls priv)) 1
                     else push_bit (unat (offdivhs priv)) 1 :: s64);
          sensmula = (if low then ucast (sensmull priv) else ucast (sensmulh priv) :: s64);
          sensdiva = (if low then push_bit (unat (sensdivls priv)) 1
                      else push_bit (unat (sensdivhs priv)) 1 :: s64);
          offmulb = (if low \<and> verylow then ucast (offmulvl priv) else 0 :: s64);
          sensmulb = (if low \<and> verylow then ucast (sensmulvl priv) else 0 :: s64);
          tm0 = (scast temp0 - 2000 :: s64);
          tm = tm0 * tm0;
          tp0 = (scast temp0 + 1500 :: s64);
          tp = tp0 * tp0;
          off = off0 - (sdiv_w (offmula * tm) offdiva + offmulb * tp);
          sens = sens0 - (sdiv_w (sensmula * tm) sensdiva + sensmulb * tp);
          temp1 = temp0 - (ucast (sdiv_w (diffmul * scast diff * scast diff) diffdiv) :: s32);
          press0 = (ucast (sdiv_w (sdiv_w (ucast rawpress * sens) (push_bit 21 1) - off)
                             (push_bit (unat (pressdivs priv)) 1)) :: s32);
          press1 =
            (case model priv of
               MS58XX_MODEL_MS5803_07 \<Rightarrow>
                 (if 110000 <s press0
                  then press0 +
                    (ucast (sdiv_w
                       (((ucast (c7 priv) - push_bit 5 1) * 100 * push_bit 2 1 -
                         sdiv_w ((ucast (c8 priv) - push_bit 5 1) * (scast temp1 - 2000))
                                (push_bit 4 1)) *
                        (scast press0 - 110000))
                       (49000000 :: s64)) :: s32)
                  else press0)
             | MS58XX_MODEL_MS5806_02 \<Rightarrow>
                 (if 22 \<le> vdd \<and> vdd \<le> 30
                  then press0 +
                    (ucast (sdiv_w ((30 - word_of_int vdd) * ucast (c7 priv))
                                   (push_bit 6 1 * (10 :: s64))) :: s32)
                  else press0)
             | _ \<Rightarrow> press0)
      in (temp1, press1))"

definition ms58xx_measure ::
    "int \<Rightarrow> ms58xx_dev_s \<Rightarrow> i2c_bus \<Rightarrow> (int \<times> ms58xx_dev_s) \<times> i2c_bus" where
  "ms58xx_measure vdd priv bus =
     (case ms58xx_convert priv MS58XX_PRESS_REG bus of
        (Inl e, bus1) \<Rightarrow> ((e, priv), bus1)
      | (Inr (ret1, rawpress), bus1) \<Rightarrow>
          (case ms58xx_convert priv MS58XX_TEMP_REG bus1 of
             (Inl e, bus2) \<Rightarrow> ((e, priv), bus2)
           | (Inr (ret, rawtemp), bus2) \<Rightarrow>
               (let (t, p) = ms58xx_compensate vdd priv rawpress rawtemp
                in ((ret, priv\<lparr>temp := t, press := p\<rparr>), bus2))))"

subsection \<open>Registration\<close>

text \<open>
  The condition of the second \<open>DEBUGASSERT\<close> of \<open>ms58xx_register\<close>.  \<open>addr0\<close> and
  \<open>addr1\<close> stand for \<open>MS58XX_ADDR0\<close> and \<open>MS58XX_ADDR1\<close>, which the header defines.
\<close>

definition register_sanity :: "u8 \<Rightarrow> u8 \<Rightarrow> ms58xx_model_e \<Rightarrow> u8 \<Rightarrow> bool" where
  "register_sanity addr0 addr1 m a \<longleftrightarrow>
     (m = MS58XX_MODEL_MS5803_02 \<or>
      m = MS58XX_MODEL_MS5803_05 \<or>
      m = MS58XX_MODEL_MS5803_07 \<or>
      m = MS58XX_MODEL_MS5803_14 \<or>
      m = MS58XX_MODEL_MS5803_30 \<or>
      m = MS58XX_MODEL_MS5806_02) \<and>
     (a = addr0 \<or> a = addr1) \<or>
     (m = MS58XX_MODEL_MS5805_02 \<or>
      m = MS58XX_MODEL_MS5837_30) \<and>
     a = addr0"

text \<open>The three table switches of \<open>ms58xx_register\<close>.\<close>

definition init_scaling :: "ms58xx_dev_s \<Rightarrow> ms58xx_dev_s" where
  "init_scaling priv =
     (case model priv of
        MS58XX_MODEL_MS5803_05 \<Rightarrow> priv\<lparr>c1s := 17, c2s := 18, c3s := 7, c4s := 5\<rparr>
      | MS58XX_MODEL_MS5803_07 \<Rightarrow> priv\<lparr>c1s := 17, c2s := 18, c3s := 6, c4s := 5\<rparr>
      | MS58XX_MODEL_MS5803_14 \<Rightarrow> priv\<lparr>c1s := 15, c2s := 16, c3s := 8, c4s := 7\<rparr>
      | MS58XX_MODEL_MS5803_30 \<Rightarrow> priv\<lparr>c1s := 15, c2s := 16, c3s := 8, c4s := 7\<rparr>
      | MS58XX_MODEL_MS5837_30 \<Rightarrow> priv\<lparr>c1s := 15, c2s := 16, c3s := 8, c4s := 7\<rparr>
      | _ \<Rightarrow> priv\<lparr>c1s := 16, c2s := 17, c3s := 7, c4s := 6\<rparr>)"

definition second_order ::
    "u8 \<Rightarrow> u8 \<Rightarrow> u8 \<Rightarrow> u8 \<Rightarrow> u8 \<Rightarrow> u8 \<Rightarrow> u8 \<Rightarrow> u8 \<Rightarrow> u8 \<Rightarrow> u8 \<Rightarrow> u8 \<Rightarrow> u8 \<Rightarrow> u8 \<Rightarrow> u8
       \<Rightarrow> ms58xx_dev_s \<Rightarrow> ms58xx_dev_s" where
  "second_order dml ddl oml odl sml sdl omv smv dmh ddh omh odh smh sdh priv =
     priv\<lparr>diffmull := dml, diffdivls := ddl, offmull := oml, offdivls := odl,
          sensmull := sml, sensdivls := sdl, offmulvl := omv, sensmulvl := smv,
          diffmulh := dmh, diffdivhs := ddh, offmulh := omh, offdivhs := odh,
          sensmulh := smh, sensdivhs := sdh\<rparr>"

definition init_compensation :: "ms58xx_dev_s \<Rightarrow> ms58xx_dev_s" where
  "init_compensation priv =
     (case model priv of
        MS58XX_MODEL_MS5803_02 \<Rightarrow> second_order 1 31 61 4 2 0 20 12 0 0 0 0 0 0 priv
      | MS58XX_MODEL_MS5806_02 \<Rightarrow> second_order 1 31 61 4 2 0 20 12 0 0 0 0 0 0 priv
      | MS58XX_MODEL_MS5803_05 \<Rightarrow> second_order 3 33 3 3 7 3 0 3 0 0 0 0 0 0 priv
      | MS58XX_MODEL_MS5803_07 \<Rightarrow> second_order 3 33 3 3 7 3 0 3 0 0 0 0 0 0 priv
      | MS58XX_MODEL_MS5803_14 \<Rightarrow> second_order 3 33 3 1 5 3 7 4 7 37 1 4 0 0 priv
      | MS58XX_MODEL_MS5803_30 \<Rightarrow> second_order 3 33 3 1 5 3 7 4 7 37 1 4 0 0 priv
      | MS58XX_MODEL_MS5805_02 \<Rightarrow> second_order 11 35 31 3 63 5 0 0 0 0 0 0 0 0 priv
      | MS58XX_MODEL_MS5837_30 \<Rightarrow> second_order 3 33 3 1 5 3 7 4 2 37 1 4 0 0 priv)"

definition init_pressdivs :: "ms58xx_dev_s \<Rightarrow> ms58xx_dev_s" where
  "init_pressdivs priv =
     (case model priv of
        MS58XX_MODEL_MS5803_30 \<Rightarrow> priv\<lparr>pressdivs := 13\<rparr>
      | MS58XX_MODEL_MS5837_30 \<Rightarrow> priv\<lparr>pressdivs := 13\<rparr>
      | _ \<Rightarrow> priv\<lparr>pressdivs := 15\<rparr>)"

text \<open>
  Modelled from the spec: the macro \<open>DEBUGASSERT\<close> is defined in a system header outside
  the sources.  The spec has construction validate the (model, address) pair and reject
  every other pairing as a programmer error, so a failed assertion ends the call with
  \<open>Assert_Failed\<close> before anything is allocated.

  \<open>Returned ret dev bus\<close> is a normal return: \<open>dev\<close> is the instance handed to
  \<open>register_driver\<close>, or \<open>None\<close> where the function left through \<open>err\<close> and freed it
  (or never allocated it).
\<close>

datatype register_result =
    Assert_Failed
  | Returned int "ms58xx_dev_s option" i2c_bus

text \<open>
  \<open>ms58xx_register\<close>.  Outside the driver, and so parameters here: the two address
  constants, the host's byte order, what \<open>kmm_malloc\<close> returns (\<open>None\<close> for \<open>NULL\<close>,
  otherwise the uninitialised block), and the return code of \<open>register_driver\<close>.
  The \<open>i2c\<close> argument is \<open>None\<close> for a \<open>NULL\<close> pointer.
\<close>

definition ms58xx_register ::
    "u8 \<Rightarrow> u8 \<Rightarrow> bool \<Rightarrow> ms58xx_dev_s option \<Rightarrow> int
       \<Rightarrow> i2c_bus option \<Rightarrow> u8 \<Rightarrow> u16 \<Rightarrow> ms58xx_model_e \<Rightarrow> register_result" where
  "ms58xx_register addr0 addr1 big_endian kmm_malloc register_driver i2c a ratio m =
     (case i2c of
        None \<Rightarrow> Assert_Failed
      | Some bus \<Rightarrow>
          if \<not> register_sanity addr0 addr1 m a then Assert_Failed
          else
            (case kmm_malloc of
               None \<Rightarrow> Returned (- ENOMEM) None bus
             | Some block \<Rightarrow>
                 (let priv0 = block\<lparr>addr := a, model := m, temp := 0, press := 0\<rparr>;
                      priv1 = init_pressdivs (init_compensation (init_scaling priv0));
                      (ret, priv2) = ms58xx_setosr priv1 ratio
                  in if ret < 0 then Returned ret None bus
                     else
                       (case ms58xx_reset big_endian priv2 bus of
                          ((ret3, priv3), bus3) \<Rightarrow>
                            if ret3 < 0 then Returned ret3 None bus3
                            else if register_driver < 0
                                 then Returned register_driver None bus3
                                 else Returned register_driver (Some priv3) bus3))))"

section \<open>Reference definitions and test fixtures\<close>

subsection \<open>The CRC as the specification words it\<close>

text \<open>
  The check value over a block of 16-bit words: each word is XOR'd byte by byte into a
  16-bit register, most significant byte first; after each byte the register is shifted
  left eight times, with an XOR of 0x3000 whenever the bit shifted out was set; the result
  is the top four bits of the final register.
\<close>

definition spec_crc_shift :: "u16 \<Rightarrow> u16" where
  "spec_crc_shift r = (if bit r 15 then push_bit 1 r XOR 0x3000 else push_bit 1 r)"

definition spec_crc_byte :: "u16 \<Rightarrow> u16 \<Rightarrow> u16" where
  "spec_crc_byte r b = (spec_crc_shift ^^ 8) (r XOR b)"

definition spec_crc_word :: "u16 \<Rightarrow> u16 \<Rightarrow> u16" where
  "spec_crc_word w r = spec_crc_byte (spec_crc_byte r (drop_bit 8 w)) (w AND 0xff)"

definition spec_crc4 :: "u16 list \<Rightarrow> u16" where
  "spec_crc4 block = drop_bit 12 (fold spec_crc_word block 0)"

subsection \<open>Bus traffic of the PROM read\<close>

text \<open>
  The transfers of \<open>n\<close> consecutive word reads starting at word \<open>i\<close>: for each word the
  register address \<open>0xa0 + 2 * i\<close> is written and two bytes are read.
\<close>

fun prom_reads :: "u8 \<Rightarrow> nat \<Rightarrow> nat \<Rightarrow> i2c_event list" where
  "prom_reads a i 0 = []"
| "prom_reads a i (Suc n) =
     I2C_Write a [word_of_nat (MS58XX_PROM_REG + i * 2)] # I2C_Read a 2 # prom_reads a (Suc i) n"

text \<open>
  The 16-bit word in an answer of the bus, most significant byte first, and the word
  the bus hands out at the \<open>k\<close>-th of these reads: the answer to the request history up
  to and including that read.
\<close>

definition u16_of_reply :: "i2c_reply \<Rightarrow> u16" where
  "u16_of_reply r = push_bit 8 (ucast (buf r 0)) OR ucast (buf r 1)"

definition prom_word :: "u8 \<Rightarrow> i2c_bus \<Rightarrow> nat \<Rightarrow> u16" where
  "prom_word a bus k = u16_of_reply (respond bus (history bus @ prom_reads a 0 (Suc k)))"



text \<open>The two models whose PROM has seven words.\<close>

definition compact_models :: "ms58xx_model_e set" where
  "compact_models = {MS58XX_MODEL_MS5805_02, MS58XX_MODEL_MS5837_30}"

subsection \<open>Reading results\<close>

text \<open>The device instance a call of \<open>ms58xx_register\<close> leaves behind, if any.\<close>

definition created :: "register_result \<Rightarrow> ms58xx_dev_s option" where
  "created res = (case res of Assert_Failed \<Rightarrow> None | Returned ret dev bus \<Rightarrow> dev)"

subsection \<open>A simulated sensor and sample devices\<close>

text \<open>
  A sensor holding the PROM words \<open>prom\<close> and answering every ADC read with \<open>adc\<close>.
  A read after the write of register 0 returns the three ADC bytes, a read after the
  write of a PROM register the two bytes of that word, both most significant byte
  first.  The transfers whose position in the history is listed in \<open>fails\<close> fail with
  code \<open>-5\<close>; all others return 0.
\<close>

definition sensor_buf :: "u16 list \<Rightarrow> u32 \<Rightarrow> i2c_event list \<Rightarrow> nat \<Rightarrow> u8" where
  "sensor_buf prom adc h =
     (case rev h of
        I2C_Read a n # I2C_Write a' [reg] # _ \<Rightarrow>
          (if reg = 0
           then (\<lambda>i. ucast (drop_bit (8 * (2 - i)) adc))
           else (\<lambda>i. ucast (drop_bit (8 * (1 - i)) (prom ! ((unat reg - 0xa0) div 2)))))
      | _ \<Rightarrow> (\<lambda>i. 0))"

definition sensor :: "u16 list \<Rightarrow> u32 \<Rightarrow> nat list \<Rightarrow> i2c_bus" where
  "sensor prom adc fails =
     \<lparr>respond = (\<lambda>h. \<lparr>rc = (if length h \<in> set fails then - 5 else 0),
                       buf = sensor_buf prom adc h\<rparr>),
      history = []\<rparr>"

text \<open>A PROM image whose CRC nibble 0xB, in bits 3 to 0 of word 7, is the check value
  of the specification's algorithm over the other bits.\<close>

definition sample_prom :: "u16 list" where
  "sample_prom = [0x3132, 0x3334, 0x3536, 0x3738, 0x3940, 0x4142, 0x4344, 0x450B]"


text \<open>A seven-word image with its check value 0x4 in bits 15 to 12 of word 0.\<close>

definition compact_prom :: "u16 list" where
  "compact_prom = [0x4000, 0x0001, 0, 0, 0, 0, 0]"

text \<open>An MS5803-02 at address 0x76 as \<open>ms58xx_register\<close> sets it up for a ratio of 256,
  holding coefficients and a measurement from earlier calls.\<close>

definition sample_dev :: ms58xx_dev_s where
  "sample_dev =
     \<lparr>addr = 0x76, model = MS58XX_MODEL_MS5803_02, crcindex = 0, crcshift = 0,
      temp = 2500, press = 100000, osr = 0, delay = 600,
      c1 = 46372, c2 = 43981, c3 = 29059, c4 = 27842, c5 = 31553, c6 = 28165,
      c7 = 0, c8 = 0, c1s = 16, c2s = 17, c3s = 7, c4s = 6,
      diffmull = 1, diffdivls = 31, offmull = 61, offdivls = 4, sensmull = 2,
      sensdivls = 0, offmulvl = 20, sensmulvl = 12, diffmulh = 0, diffdivhs = 0,
      offmulh = 0, offdivhs = 0, sensmulh = 0, sensdivhs = 0, pressdivs = 15\<rparr>"

text \<open>The same memory block seen as an MS5837-30.\<close>

definition compact_dev :: ms58xx_dev_s where
  "compact_dev = sample_dev\<lparr>model := MS58XX_MODEL_MS5837_30\<rparr>"

text \<open>The structure \<open>ms58xx_register\<close> builds in that block for an MS5803-02 at 0x76
  with a ratio of 256, once the first six coefficients of the sample image are loaded.\<close>

definition registered_dev :: ms58xx_dev_s where
  "registered_dev =
     sample_dev\<lparr>temp := 0, press := 0, c1 := 0x3334, c2 := 0x3536, c3 := 0x3738,
                c4 := 0x3940, c5 := 0x4142, c6 := 0x4344\<rparr>"

text \<open>The two models for which \<open>ms58xx_setosr\<close> accepts a ratio of 8192.\<close>

definition osr_8192_models :: "ms58xx_model_e set" where
  "osr_8192_models = {MS58XX_MODEL_MS5805_02, MS58XX_MODEL_MS5837_30}"

section \<open>Oversampling configuration\<close>

lemma setosr_low:
  "ratio \<in> {256, 512, 1024, 2048, 4096} \<Longrightarrow>
     ms58xx_setosr priv ratio =
       (OK, priv\<lparr>delay := (if ratio = 256 then 600 else if ratio = 512 then 1170
                              else if ratio = 1024 then 2280
                              else if ratio = 2048 then 4540 else 9040),
                  osr := word_of_nat ((unat ratio div 256 - 1) * 2)\<rparr>)"
  by (auto simp: ms58xx_setosr_def OK_def Let_def)

lemma setosr_8192_ok:
  "model priv \<in> osr_8192_models \<Longrightarrow>
     ms58xx_setosr priv 8192 = (OK, priv\<lparr>delay := 18080, osr := 62\<rparr>)"
  by (auto simp: ms58xx_setosr_def OK_def Let_def osr_8192_models_def)

lemma setosr_8192_bad:
  "model priv \<notin> osr_8192_models \<Longrightarrow> ms58xx_setosr priv 8192 = (- EINVAL, priv)"
  by (cases "model priv")
    (simp_all add: ms58xx_setosr_def OK_def EINVAL_def Let_def osr_8192_models_def)

lemma setosr_other:
  "ratio \<notin> {256, 512, 1024, 2048, 4096, 8192} \<Longrightarrow>
     ms58xx_setosr priv ratio = (- EINVAL, priv)"
  by (simp add: ms58xx_setosr_def OK_def EINVAL_def Let_def)

lemma setosr_cases:
  "ms58xx_setosr priv ratio = (- EINVAL, priv) \<or>
   (\<exists>d. ms58xx_setosr priv ratio =
      (OK, priv\<lparr>delay := d, osr := word_of_nat ((unat ratio div 256 - 1) * 2)\<rparr>))"
proof -
  consider "ratio \<in> {256, 512, 1024, 2048, 4096}"
    | "ratio = 8192" "model priv \<in> osr_8192_models"
    | "ratio = 8192" "model priv \<notin> osr_8192_models"
    | "ratio \<notin> {256, 512, 1024, 2048, 4096, 8192}"
    by blast
  then show ?thesis
  proof cases
    case 1
    show ?thesis using setosr_low [OF 1, of priv] by blast
  next
    case 2
    have "ms58xx_setosr priv ratio =
        (OK, priv\<lparr>delay := 18080, osr := word_of_nat ((unat ratio div 256 - 1) * 2)\<rparr>)"
      using setosr_8192_ok [of priv] 2 by simp
    then show ?thesis by blast
  next
    case 3
    then show ?thesis using setosr_8192_bad [of priv] by blast
  next
    case 4
    then show ?thesis using setosr_other [of ratio priv] by blast
  qed
qed

lemma setosr_keeps:
  "model (snd (ms58xx_setosr priv ratio)) = model priv"
  "addr (snd (ms58xx_setosr priv ratio)) = addr priv"
  using setosr_cases [of priv ratio] by auto

text \<open>
  C5: for every device structure, whatever its model, \<open>ms58xx_setosr\<close> maps the ratios
  256, 512, 1024, 2048 and 4096 to the delays 600, 1170, 2280, 4540 and 9040 microseconds
  and to the selector field \<open>(r / 256 - 1) * 2\<close>, returning \<open>OK\<close>; the ratio 8192 gives
  the delay 18080 and the selector 62 on the MS5805-02 and the MS5837-30 and \<open>-EINVAL\<close> on
  every other model; every other ratio gives \<open>-EINVAL\<close> on every model.
\<close>

theorem setosr_table:
  "(\<forall>(r, d) \<in> set [(256, 600), (512, 1170), (1024, 2280), (2048, 4540), (4096, 9040)].
      ms58xx_setosr priv r =
        (OK, priv\<lparr>delay := d, osr := word_of_nat ((unat r div 256 - 1) * 2)\<rparr>)) \<and>
   (model priv \<in> osr_8192_models \<longrightarrow>
      ms58xx_setosr priv 8192 = (OK, priv\<lparr>delay := 18080, osr := 62\<rparr>)) \<and>
   (model priv \<notin> osr_8192_models \<longrightarrow> fst (ms58xx_setosr priv 8192) = - EINVAL) \<and>
   (ratio \<notin> {256, 512, 1024, 2048, 4096, 8192} \<longrightarrow>
      fst (ms58xx_setosr priv ratio) = - EINVAL)"
proof (intro conjI impI)
  show "\<forall>(r, d) \<in> set [(256, 600), (512, 1170), (1024, 2280), (2048, 4540), (4096, 9040)].
      ms58xx_setosr priv r =
        (OK, priv\<lparr>delay := d, osr := word_of_nat ((unat r div 256 - 1) * 2)\<rparr>)"
    by (simp add: setosr_low)
next
  assume "model priv \<in> osr_8192_models"
  then show "ms58xx_setosr priv 8192 = (OK, priv\<lparr>delay := 18080, osr := 62\<rparr>)"
    by (rule setosr_8192_ok)
next
  assume "model priv \<notin> osr_8192_models"
  then have "ms58xx_setosr priv 8192 = (- EINVAL, priv)"
    by (rule setosr_8192_bad)
  then show "fst (ms58xx_setosr priv 8192) = - EINVAL"
    by simp
next
  assume "ratio \<notin> {256, 512, 1024, 2048, 4096, 8192}"
  then have "ms58xx_setosr priv ratio = (- EINVAL, priv)"
    by (rule setosr_other)
  then show "fst (ms58xx_setosr priv ratio) = - EINVAL"
    by simp
qed

theorem setosr_table_witness:
  "ms58xx_setosr compact_dev 1024 = (OK, compact_dev\<lparr>delay := 2280, osr := 6\<rparr>) \<and>
   model compact_dev \<in> osr_8192_models \<and>
   ms58xx_setosr compact_dev 8192 = (OK, compact_dev\<lparr>delay := 18080, osr := 62\<rparr>) \<and>
   model sample_dev \<notin> osr_8192_models \<and>
   fst (ms58xx_setosr sample_dev 8192) = - EINVAL \<and>
   (300 :: u16) \<notin> {256, 512, 1024, 2048, 4096, 8192} \<and>
   fst (ms58xx_setosr sample_dev 300) = - EINVAL"
proof -
  have m: "model compact_dev \<in> osr_8192_models"
    by (simp add: compact_dev_def osr_8192_models_def)
  have n: "model sample_dev \<notin> osr_8192_models"
    by (simp add: sample_dev_def osr_8192_models_def)
  have r: "(300 :: u16) \<notin> {256, 512, 1024, 2048, 4096, 8192}"
    by simp
  have i: "((1024 :: u16), (2280 :: u32)) \<in>
      set [(256, 600), (512, 1170), (1024, 2280), (2048, 4540), (4096, 9040)]"
    by simp
  note c = setosr_table [of compact_dev 300]
  note s = setosr_table [of sample_dev 300]
  from c have "\<forall>(r, d) \<in> set [(256, 600), (512, 1170), (1024, 2280), (2048, 4540), (4096, 9040)].
      ms58xx_setosr compact_dev r =
        (OK, compact_dev\<lparr>delay := d, osr := word_of_nat ((unat r div 256 - 1) * 2)\<rparr>)"
    by (rule conjunct1)
  from bspec [OF this i]
  have a: "ms58xx_setosr compact_dev 1024 = (OK, compact_dev\<lparr>delay := 2280, osr := 6\<rparr>)"
    by simp
  from c m
  have b: "ms58xx_setosr compact_dev 8192 = (OK, compact_dev\<lparr>delay := 18080, osr := 62\<rparr>)"
    by blast
  from s n have d: "fst (ms58xx_setosr sample_dev 8192) = - EINVAL"
    by blast
  from s r have e: "fst (ms58xx_setosr sample_dev 300) = - EINVAL"
    by blast
  from a m b n d r e show ?thesis by blast
qed

text \<open>
  C6: a request that fails validation, because the ratio is outside the legal set or is
  8192 on a model that does not support it, returns \<open>-EINVAL\<close> and leaves the whole
  device structure, the selector field and the delay in particular, as it was.  The two
  are never written separately: every call either leaves the structure unchanged or
  stores a delay together with the selector computed from the same ratio.
\<close>

theorem setosr_invalid_unchanged:
  "(ratio \<notin> {256, 512, 1024, 2048, 4096, 8192} \<or>
    ratio = 8192 \<and> model priv \<notin> osr_8192_models \<longrightarrow>
      ms58xx_setosr priv ratio = (- EINVAL, priv)) \<and>
   (ms58xx_setosr priv ratio = (- EINVAL, priv) \<or>
    (\<exists>d. ms58xx_setosr priv ratio =
       (OK, priv\<lparr>delay := d, osr := word_of_nat ((unat ratio div 256 - 1) * 2)\<rparr>)))"
proof (rule conjI)
  show "ratio \<notin> {256, 512, 1024, 2048, 4096, 8192} \<or>
    ratio = 8192 \<and> model priv \<notin> osr_8192_models \<longrightarrow>
      ms58xx_setosr priv ratio = (- EINVAL, priv)"
  proof
    assume "ratio \<notin> {256, 512, 1024, 2048, 4096, 8192} \<or>
      ratio = 8192 \<and> model priv \<notin> osr_8192_models"
    then show "ms58xx_setosr priv ratio = (- EINVAL, priv)"
    proof
      assume "ratio \<notin> {256, 512, 1024, 2048, 4096, 8192}"
      then show ?thesis by (rule setosr_other)
    next
      assume "ratio = 8192 \<and> model priv \<notin> osr_8192_models"
      then show ?thesis using setosr_8192_bad [of priv] by simp
    qed
  qed
next
  show "ms58xx_setosr priv ratio = (- EINVAL, priv) \<or>
    (\<exists>d. ms58xx_setosr priv ratio =
       (OK, priv\<lparr>delay := d, osr := word_of_nat ((unat ratio div 256 - 1) * 2)\<rparr>))"
    by (rule setosr_cases)
qed

theorem setosr_invalid_unchanged_witness:
  "((1000 :: u16) \<notin> {256, 512, 1024, 2048, 4096, 8192} \<and>
    ms58xx_setosr sample_dev 1000 = (- EINVAL, sample_dev)) \<and>
   (model sample_dev \<notin> osr_8192_models \<and>
    ms58xx_setosr sample_dev 8192 = (- EINVAL, sample_dev))"
proof -
  have r: "(1000 :: u16) \<notin> {256, 512, 1024, 2048, 4096, 8192}"
    by simp
  have n: "model sample_dev \<notin> osr_8192_models"
    by (simp add: sample_dev_def osr_8192_models_def)
  from setosr_invalid_unchanged [of 1000 sample_dev] r
  have a: "ms58xx_setosr sample_dev 1000 = (- EINVAL, sample_dev)"
    by blast
  from setosr_invalid_unchanged [of 8192 sample_dev] n
  have b: "ms58xx_setosr sample_dev 8192 = (- EINVAL, sample_dev)"
    by blast
  from r a n b show ?thesis by blast
qed

section \<open>Conversion and measurement\<close>

lemma readadc_Inl_neg: "ms58xx_readadc priv bus = (Inl e, b) \<Longrightarrow> e < 0"
  by (auto simp: ms58xx_readadc_def Let_def split: prod.splits if_splits)

lemma readadc_Inr_nonneg: "ms58xx_readadc priv bus = (Inr (r, v), b) \<Longrightarrow> 0 \<le> r"
  by (auto simp: ms58xx_readadc_def Let_def split: prod.splits if_splits)

text \<open>
  The outcome of a conversion is the outcome of the ADC read that follows the trigger
  write and the wait; the return code of the trigger write does not enter it.
\<close>

lemma convert_readadc:
  "ms58xx_convert priv reg bus =
     ms58xx_readadc priv
       (up_udelay (delay priv) (snd (I2C_WRITE (addr priv) [reg OR osr priv] bus)))"
  by (simp add: ms58xx_convert_def Let_def split: prod.splits sum.splits)

lemma convert_Inl_neg: "ms58xx_convert priv reg bus = (Inl e, b) \<Longrightarrow> e < 0"
  by (simp add: convert_readadc readadc_Inl_neg)

lemma convert_Inr_nonneg: "ms58xx_convert priv reg bus = (Inr (r, v), b) \<Longrightarrow> 0 \<le> r"
  by (simp add: convert_readadc readadc_Inr_nonneg)

text \<open>
  C2: the claim is that a bus failure at the trigger write aborts the conversion and is
  returned, so that no conversion whose trigger write failed returns success with an ADC
  value.  \<open>ms58xx_convert\<close> only logs that failure and goes on: on a bus whose first
  transfer, the trigger write, fails with \<open>-5\<close> while the later transfers succeed, the
  conversion returns 0 together with the ADC value 0x123456.
\<close>

theorem convert_ignores_trigger_failure:
  "fst (I2C_WRITE (addr sample_dev) [MS58XX_PRESS_REG OR osr sample_dev]
          (sensor sample_prom 0x123456 [1])) = - 5 \<and>
   fst (ms58xx_convert sample_dev MS58XX_PRESS_REG (sensor sample_prom 0x123456 [1])) =
     Inr (0, 0x123456)"
  by (simp add: ms58xx_convert_def ms58xx_readadc_def I2C_WRITE_def I2C_READ_def up_udelay_def
      sensor_def sensor_buf_def sample_dev_def Let_def MS58XX_PRESS_REG_def MS58XX_ADC_REG_def)

text \<open>
  For every raw value and every coefficient, the difference the code forms is the raw
  value minus the high byte of C5.
\<close>

lemma measure_diff_shifts_down:
  "measure_diff rawtemp c5v = rawtemp - ucast (drop_bit 8 c5v)"
proof -
  have b: "uint c5v < 2 ^ 31"
    using uint_bounded [of c5v] by simp
  have n: "- (2 ^ 31) \<le> uint c5v"
    by (rule order_trans [where y = 0]) simp_all
  have "sint (ucast c5v :: s32) = signed_take_bit 31 (uint c5v)"
    by (simp add: signed_ucast_eq)
  also have "\<dots> = uint c5v"
    using n b by (rule signed_take_bit_int_eq_self)
  finally have s: "sint (ucast c5v :: s32) = uint c5v" .
  have p: "sint (push_bit 8 1 :: s32) = 256"
    by simp
  have "sdiv_w (ucast c5v :: s32) (push_bit 8 1) = word_of_int (uint c5v div 256)"
    unfolding sdiv_w_def s p by (simp add: signed_divide_int_def sgn_if)
  also have "\<dots> = ucast (drop_bit 8 c5v)"
  proof -
    have "uint (drop_bit 8 c5v) = uint c5v div 256"
      by (simp add: drop_bit_eq_div uint_div_distrib)
    then show ?thesis
      by (simp only: ucast_eq)
  qed
  finally show ?thesis
    by (simp add: measure_diff_def)
qed

text \<open>
  C1: the claim is that the temperature difference is \<open>rawtemp - C5 * 256\<close>.  The
  statement in \<open>ms58xx_measure\<close> divides C5 by 256 instead of multiplying it: at
  \<open>rawtemp = 0x800000\<close> and \<open>C5 = 0x8000\<close>, where \<open>rawtemp - C5 * 256\<close> is zero, the
  code computes \<open>0x800000 - 0x80\<close>.
\<close>

theorem measure_diff_divides_c5:
  "measure_diff 0x800000 0x8000 = 0x800000 - 0x80 \<and>
   measure_diff 0x800000 0x8000 \<noteq> 0x800000 - 0x8000 * 256"
  by (simp add: measure_diff_def sdiv_w_def signed_divide_int_def)

text \<open>
  Seen from \<open>ms58xx_measure\<close>, a conversion has failed when \<open>ms58xx_convert\<close> returns
  a negative code.  Every call then ends in one of three ways: the pressure conversion
  returns a negative code, or the temperature conversion does, and that code is returned
  with the device structure unchanged; or both return a non-negative code, and the
  compensated pair is stored.
\<close>

lemma measure_cases:
  "((\<exists>e b1. ms58xx_convert priv MS58XX_PRESS_REG bus = (Inl e, b1) \<and> e < 0 \<and>
        ms58xx_measure vdd priv bus = ((e, priv), b1)) \<or>
    (\<exists>r1 rawpress b1 e b2.
        ms58xx_convert priv MS58XX_PRESS_REG bus = (Inr (r1, rawpress), b1) \<and>
        ms58xx_convert priv MS58XX_TEMP_REG b1 = (Inl e, b2) \<and> e < 0 \<and>
        ms58xx_measure vdd priv bus = ((e, priv), b2)) \<or>
    (\<exists>r1 rawpress b1 r rawtemp b2.
        ms58xx_convert priv MS58XX_PRESS_REG bus = (Inr (r1, rawpress), b1) \<and>
        ms58xx_convert priv MS58XX_TEMP_REG b1 = (Inr (r, rawtemp), b2) \<and> 0 \<le> r \<and>
        ms58xx_measure vdd priv bus =
          ((r, priv\<lparr>temp := fst (ms58xx_compensate vdd priv rawpress rawtemp),
                     press := snd (ms58xx_compensate vdd priv rawpress rawtemp)\<rparr>), b2))) \<and>
   (fst (fst (ms58xx_measure vdd priv bus)) < 0 \<longrightarrow>
      snd (fst (ms58xx_measure vdd priv bus)) = priv)"
proof -
  obtain x1 b1 where c1: "ms58xx_convert priv MS58XX_PRESS_REG bus = (x1, b1)"
    by (cases "ms58xx_convert priv MS58XX_PRESS_REG bus")
  obtain x2 b2 where c2: "ms58xx_convert priv MS58XX_TEMP_REG b1 = (x2, b2)"
    by (cases "ms58xx_convert priv MS58XX_TEMP_REG b1")
  show ?thesis
  proof (cases x1)
    case (Inl e)
    with c1 have "e < 0" by (auto dest: convert_Inl_neg)
    moreover have "ms58xx_measure vdd priv bus = ((e, priv), b1)"
      using c1 Inl by (simp add: ms58xx_measure_def)
    ultimately show ?thesis using c1 Inl by simp
  next
    case (Inr rv)
    obtain r1 rawpress where rv: "rv = (r1, rawpress)" by (cases rv)
    show ?thesis
    proof (cases x2)
      case (Inl e)
      with c2 have "e < 0" by (auto dest: convert_Inl_neg)
      moreover have "ms58xx_measure vdd priv bus = ((e, priv), b2)"
        using c1 c2 Inr rv Inl by (simp add: ms58xx_measure_def)
      ultimately show ?thesis using c1 c2 Inr rv Inl by simp
    next
      case inr2: (Inr rv2)
      obtain r rawtemp where rv2: "rv2 = (r, rawtemp)" by (cases rv2)
      from c2 inr2 rv2 have nn: "0 \<le> r" by (auto dest: convert_Inr_nonneg)
      have "ms58xx_measure vdd priv bus =
          ((r, priv\<lparr>temp := fst (ms58xx_compensate vdd priv rawpress rawtemp),
                     press := snd (ms58xx_compensate vdd priv rawpress rawtemp)\<rparr>), b2)"
        using c1 c2 Inr rv inr2 rv2 by (simp add: ms58xx_measure_def split: prod.splits)
      then show ?thesis using c1 c2 Inr rv inr2 rv2 nn by simp
    qed
  qed
qed

text \<open>
  The compensation runs as a chain of assignments; with a value for each of them in
  hand the result follows.
\<close>

lemma compensate_steps:
  assumes "diff = measure_diff rawtemp (c5 priv)"
    and "tempa = (ucast ((2000 :: s64) +
                     sdiv_w (scast diff * ucast (c6 priv)) (push_bit 23 1)) :: s32)"
    and "offa = (ucast (c2 priv) * push_bit (unat (c2s priv)) 1 +
                    sdiv_w (ucast (c4 priv) * scast diff) (push_bit (unat (c4s priv)) 1) :: s64)"
    and "sensa = (ucast (c1 priv) * push_bit (unat (c1s priv)) 1 +
                    sdiv_w (ucast (c3 priv) * scast diff) (push_bit (unat (c3s priv)) 1) :: s64)"
    and "low = (tempa <s 2000)"
    and "verylow = (tempa <s - 1500)"
    and "diffmul = (if low then ucast (diffmull priv) else ucast (diffmulh priv) :: s64)"
    and "diffdiv = (if low then push_bit (unat (diffdivls priv)) 1
                     else push_bit (unat (diffdivhs priv)) 1 :: s64)"
    and "offmula = (if low then ucast (offmull priv) else ucast (offmulh priv) :: s64)"
    and "offdiva = (if low then push_bit (unat (offdivls priv)) 1
                     else push_bit (unat (offdivhs priv)) 1 :: s64)"
    and "sensmula = (if low then ucast (sensmull priv) else ucast (sensmulh priv) :: s64)"
    and "sensdiva = (if low then push_bit (unat (sensdivls priv)) 1
                      else push_bit (unat (sensdivhs priv)) 1 :: s64)"
    and "offmulb = (if low \<and> verylow then ucast (offmulvl priv) else 0 :: s64)"
    and "sensmulb = (if low \<and> verylow then ucast (sensmulvl priv) else 0 :: s64)"
    and "tma = (scast tempa - 2000 :: s64)"
    and "tm = tma * tma"
    and "tpa = (scast tempa + 1500 :: s64)"
    and "tp = tpa * tpa"
    and "off = offa - (sdiv_w (offmula * tm) offdiva + offmulb * tp)"
    and "sens = sensa - (sdiv_w (sensmula * tm) sensdiva + sensmulb * tp)"
    and "tempb = tempa - (ucast (sdiv_w (diffmul * scast diff * scast diff) diffdiv) :: s32)"
    and "pressa = (ucast (sdiv_w (sdiv_w (ucast rawpress * sens) (push_bit 21 1) - off)
                             (push_bit (unat (pressdivs priv)) 1)) :: s32)"
    and "pressb =
            (case model priv of
               MS58XX_MODEL_MS5803_07 \<Rightarrow>
                 (if 110000 <s pressa
                  then pressa +
                    (ucast (sdiv_w
                       (((ucast (c7 priv) - push_bit 5 1) * 100 * push_bit 2 1 -
                         sdiv_w ((ucast (c8 priv) - push_bit 5 1) * (scast tempb - 2000))
                                (push_bit 4 1)) *
                        (scast pressa - 110000))
                       (49000000 :: s64)) :: s32)
                  else pressa)
             | MS58XX_MODEL_MS5806_02 \<Rightarrow>
                 (if 22 \<le> vdd \<and> vdd \<le> 30
                  then pressa +
                    (ucast (sdiv_w ((30 - word_of_int vdd) * ucast (c7 priv))
                                   (push_bit 6 1 * (10 :: s64))) :: s32)
                  else pressa)
             | _ \<Rightarrow> pressa)"
  shows "ms58xx_compensate vdd priv rawpress rawtemp = (tempb, pressb)"
  unfolding ms58xx_compensate_def Let_def assms ..

lemma compensate_sample:
  "ms58xx_compensate 30 sample_dev 0x800000 0x800000 = (30164, 316154)"
proof (rule compensate_steps [where diff = 8388485 and tempa = 30164
      and offa = 9413930747 and sensa = 4943418092 and low = False and verylow = False
      and diffmul = 0 and diffdiv = 1 and offmula = 0 and offdiva = 1
      and sensmula = 0 and sensdiva = 1 and offmulb = 0 and sensmulb = 0
      and tma = 28164 and tm = 793210896 and tpa = 31664 and tp = 1002608896
      and off = 9413930747 and sens = 4943418092 and pressa = 316154])
qed (simp_all add: sample_dev_def measure_diff_def sdiv_w_def signed_divide_int_def
    word_sless_alt)

lemma convert_press_sample:
  "ms58xx_convert sample_dev MS58XX_PRESS_REG (sensor sample_prom 0x800000 [1, 5]) =
     (Inr (0, 0x800000),
      (sensor sample_prom 0x800000 [1, 5])\<lparr>history :=
         [I2C_Write 0x76 [0x40], Udelay 600, I2C_Write 0x76 [0], I2C_Read 0x76 3]\<rparr>)"
  by (simp add: ms58xx_convert_def ms58xx_readadc_def I2C_WRITE_def I2C_READ_def up_udelay_def
      sensor_def sensor_buf_def sample_dev_def Let_def MS58XX_PRESS_REG_def MS58XX_ADC_REG_def)

lemma convert_temp_sample:
  "ms58xx_convert sample_dev MS58XX_TEMP_REG
     ((sensor sample_prom 0x800000 [1, 5])\<lparr>history :=
         [I2C_Write 0x76 [0x40], Udelay 600, I2C_Write 0x76 [0], I2C_Read 0x76 3]\<rparr>) =
     (Inr (0, 0x800000),
      (sensor sample_prom 0x800000 [1, 5])\<lparr>history :=
         [I2C_Write 0x76 [0x40], Udelay 600, I2C_Write 0x76 [0], I2C_Read 0x76 3,
          I2C_Write 0x76 [0x50], Udelay 600, I2C_Write 0x76 [0], I2C_Read 0x76 3]\<rparr>)"
  by (simp add: ms58xx_convert_def ms58xx_readadc_def I2C_WRITE_def I2C_READ_def up_udelay_def
      sensor_def sensor_buf_def sample_dev_def Let_def MS58XX_TEMP_REG_def MS58XX_ADC_REG_def)

text \<open>
  C8: the claim is that a failure of either conversion makes \<open>ms58xx_measure\<close> return
  the error and leave the stored temperature and pressure as they were.  The trigger
  write is a phase of the conversion, and its failure is lost in \<open>ms58xx_convert\<close>: on
  a bus where the trigger writes of both conversions (transfers 1 and 5) fail with
  \<open>-5\<close> and the ADC reads succeed, \<open>ms58xx_measure\<close> returns 0 and overwrites the stored
  pair (2500, 100000) with (30164, 316154).
\<close>

theorem measure_overwrites_after_trigger_failure:
  "rc (respond (sensor sample_prom 0x800000 [1, 5]) [I2C_Write 0x76 [0x40]]) = - 5 \<and>
   rc (respond (sensor sample_prom 0x800000 [1, 5])
        [I2C_Write 0x76 [0x40], Udelay 600, I2C_Write 0x76 [0], I2C_Read 0x76 3,
         I2C_Write 0x76 [0x50]]) = - 5 \<and>
   history (snd (ms58xx_measure 30 sample_dev (sensor sample_prom 0x800000 [1, 5]))) =
     [I2C_Write 0x76 [0x40], Udelay 600, I2C_Write 0x76 [0], I2C_Read 0x76 3,
      I2C_Write 0x76 [0x50], Udelay 600, I2C_Write 0x76 [0], I2C_Read 0x76 3] \<and>
   temp sample_dev = 2500 \<and> press sample_dev = 100000 \<and>
   fst (ms58xx_measure 30 sample_dev (sensor sample_prom 0x800000 [1, 5])) =
     (0, sample_dev\<lparr>temp := 30164, press := 316154\<rparr>)"
proof -
  have a: "rc (respond (sensor sample_prom 0x800000 [1, 5]) [I2C_Write 0x76 [0x40]]) = - 5"
    by (simp add: sensor_def)
  have b: "rc (respond (sensor sample_prom 0x800000 [1, 5])
        [I2C_Write 0x76 [0x40], Udelay 600, I2C_Write 0x76 [0], I2C_Read 0x76 3,
         I2C_Write 0x76 [0x50]]) = - 5"
    by (simp add: sensor_def)
  have m: "ms58xx_measure 30 sample_dev (sensor sample_prom 0x800000 [1, 5]) =
     ((0, sample_dev\<lparr>temp := 30164, press := 316154\<rparr>),
      (sensor sample_prom 0x800000 [1, 5])\<lparr>history :=
         [I2C_Write 0x76 [0x40], Udelay 600, I2C_Write 0x76 [0], I2C_Read 0x76 3,
          I2C_Write 0x76 [0x50], Udelay 600, I2C_Write 0x76 [0], I2C_Read 0x76 3]\<rparr>)"
    by (simp only: ms58xx_measure_def convert_press_sample convert_temp_sample
        compensate_sample prod.case sum.case Let_def)
  have c: "temp sample_dev = 2500 \<and> press sample_dev = 100000"
    by (simp add: sample_dev_def)
  from a b c show ?thesis unfolding m by simp
qed

text \<open>
  C10: whatever the outcome, the device structure after \<open>ms58xx_measure\<close> differs from
  the one before at most in \<open>temp\<close> and \<open>press\<close>: putting the old values of these two
  fields back gives the old structure, so the coefficients, the scaling and
  compensation tables, the selector field, the delay, the model and the address are
  all as before.
\<close>

theorem measure_frame:
  "snd (fst (ms58xx_measure vdd priv bus))\<lparr>temp := temp priv, press := press priv\<rparr> = priv"
  by (simp add: ms58xx_measure_def Let_def split: prod.splits sum.splits)

section \<open>The CRC\<close>

lemma and_top_bit: "((c :: u16) AND 0x8000 \<noteq> 0) \<longleftrightarrow> bit c 15"
  using and_exp_eq_0_iff_not_bit [of c 15] by simp

lemma low_byte: "(ucast (ucast (w :: u16) :: u8) :: u16) = w AND 0xff"
proof -
  have "(ucast (ucast (w :: u16) :: u8) :: u16) = w AND mask 8"
    by (rule bit_word_eqI) (auto simp: bit_simps dest: bit_imp_le_length)
  then show ?thesis by (simp add: mask_eq_exp_minus_1)
qed

lemma high_byte: "drop_bit 8 (w :: u16) AND 0xff = drop_bit 8 w"
proof -
  have "drop_bit 8 (w :: u16) AND mask 8 = drop_bit 8 w"
    by (rule bit_word_eqI) (auto simp: bit_simps dest: bit_imp_le_length)
  then show ?thesis by (simp add: mask_eq_exp_minus_1)
qed

lemma top_nibble: "(ucast (ucast (drop_bit 12 (w :: u16)) :: u8) :: u16) = drop_bit 12 w"
  by (rule bit_word_eqI) (auto simp: bit_simps dest: bit_imp_le_length)

lemma crc_shift_spec: "crc_shift = spec_crc_shift"
  by (rule ext) (simp add: crc_shift_def spec_crc_shift_def Let_def and_top_bit)

lemma crc_bits_funpow: "crc_bits n c = (crc_shift ^^ n) c"
  by (induction n arbitrary: c) (simp_all add: funpow_swap1)

lemma crc_loop_big_endian: "crc_loop (prom_bytes True block) r = fold spec_crc_word block r"
proof (induction block arbitrary: r)
  case Nil
  then show ?case by (simp add: prom_bytes_def)
next
  case (Cons w block)
  have "crc_loop (prom_bytes True (w # block)) r =
        crc_loop (prom_bytes True block) (spec_crc_word w r)"
    by (simp add: prom_bytes_def word_bytes_def spec_crc_word_def spec_crc_byte_def
        crc_bits_funpow crc_shift_spec high_byte low_byte)
  then show ?case using Cons.IH by simp
qed

text \<open>
  On a host that stores the more significant byte of a word first, the value
  \<open>ms58xx_crc\<close> computes over the bytes of a block is the check value of the
  specification's word-wise algorithm.
\<close>

lemma crc_big_endian:
  "ms58xx_crc (prom_bytes True block) = ucast (spec_crc4 block)"
  "spec_crc4 block = ucast (ms58xx_crc (prom_bytes True block))"
  by (simp_all add: ms58xx_crc_def spec_crc4_def crc_loop_big_endian top_nibble)

text \<open>
  C4: the claim is that the value the loader compares with the extracted nibble is the
  check value of the word-wise, most-significant-byte-first algorithm.  The loader
  hands \<open>ms58xx_crc\<close> the word array as bytes in memory, so on a little-endian host the
  bytes of each word enter the register low byte first.  For the sample image, whose
  nibble 0xB is the check value of the stated algorithm, such a host computes 0xF and
  the loader rejects the image with \<open>-ENODEV\<close>.
\<close>

theorem crc_little_endian_diverges:
  "prom_crc MS58XX_MODEL_MS5803_02 sample_prom = 0xB \<and>
   spec_crc4 (prom_masked MS58XX_MODEL_MS5803_02 sample_prom) = 0xB \<and>
   ms58xx_crc (prom_bytes False (prom_masked MS58XX_MODEL_MS5803_02 sample_prom)) = 0xF \<and>
   fst (ms58xx_readprom False sample_dev (sensor sample_prom 0 [])) = (- ENODEV, sample_dev)"
proof -
  have a: "prom_crc MS58XX_MODEL_MS5803_02 sample_prom = 0xB"
    by code_simp
  have "ms58xx_crc (prom_bytes True (prom_masked MS58XX_MODEL_MS5803_02 sample_prom)) = 0xB"
    by code_simp
  then have b: "spec_crc4 (prom_masked MS58XX_MODEL_MS5803_02 sample_prom) = 0xB"
    by (simp add: crc_big_endian(2))
  have c: "ms58xx_crc (prom_bytes False (prom_masked MS58XX_MODEL_MS5803_02 sample_prom)) = 0xF"
    by code_simp
  have d: "fst (ms58xx_readprom False sample_dev (sensor sample_prom 0 [])) =
      (- ENODEV, sample_dev)"
    by code_simp
  from a b c d show ?thesis by blast
qed

section \<open>Loading the calibration\<close>

subsection \<open>Word reads\<close>

lemma readu16_Inl:
  assumes "ms58xx_readu16 priv reg bus = (Inl e, b)"
  shows "e < 0" and "respond b = respond bus"
    and "history b = history bus @ [I2C_Write (addr priv) [reg]] \<or>
         history b = history bus @ [I2C_Write (addr priv) [reg], I2C_Read (addr priv) 2]"
    and "e = rc (respond bus (history b))"
  using assms
  by (auto simp: ms58xx_readu16_def I2C_WRITE_def I2C_READ_def Let_def split: if_splits)

lemma readu16_Inr:
  assumes "ms58xx_readu16 priv reg bus = (Inr (r, w), b)"
  shows "0 \<le> r" and "respond b = respond bus"
    and "history b = history bus @ [I2C_Write (addr priv) [reg], I2C_Read (addr priv) 2]"
    and "r = rc (respond bus (history b))"
    and "w = u16_of_reply (respond bus (history b))"
  using assms
  by (auto simp: ms58xx_readu16_def I2C_WRITE_def I2C_READ_def Let_def u16_of_reply_def split: if_splits)

lemma readprom_loop_Inr:
  "readprom_loop priv i n ret acc bus = (Inr (r, ws), b) \<Longrightarrow>
     respond b = respond bus \<and>
     history b = history bus @ prom_reads (addr priv) i n \<and>
     ws = acc @ map (\<lambda>k. u16_of_reply (respond bus (history bus @ prom_reads (addr priv) i (Suc k)))) [0..<n] \<and>
     (0 \<le> ret \<longrightarrow> 0 \<le> r)"
proof (induction n arbitrary: i ret acc bus)
  case 0
  then show ?case by simp
next
  case (Suc n)
  let ?reg = "word_of_nat (MS58XX_PROM_REG + i * 2) :: u8"
  obtain x bus1 where ru: "ms58xx_readu16 priv ?reg bus = (x, bus1)"
    by (cases "ms58xx_readu16 priv ?reg bus")
  show ?case
  proof (cases x)
    case (Inl e)
    with Suc.prems ru show ?thesis by simp
  next
    case (Inr rw)
    obtain r1 w where rw: "rw = (r1, w)" by (cases rw)
    from ru Inr rw have ru': "ms58xx_readu16 priv ?reg bus = (Inr (r1, w), bus1)" by simp
    note f = readu16_Inr [OF ru']
    from Suc.prems ru' have rec: "readprom_loop priv (i + 1) n r1 (acc @ [w]) bus1 = (Inr (r, ws), b)"
      by simp
    note ih = Suc.IH [OF rec]
    have h1: "history bus1 = history bus @ prom_reads (addr priv) i (Suc 0)"
      using f(3) by simp
    have app: "\<And>m. history bus1 @ prom_reads (addr priv) (Suc i) m =
                 history bus @ prom_reads (addr priv) i (Suc m)"
      using f(3) by simp
    have w0: "w = u16_of_reply (respond bus (history bus @ prom_reads (addr priv) i (Suc 0)))"
      using f(5) h1 by simp
    have "ws = (acc @ [w]) @ map (\<lambda>k. u16_of_reply (respond bus1 (history bus1 @ prom_reads (addr priv) (i + 1) (Suc k)))) [0..<n]"
      using ih by simp
    also have "\<dots> = acc @ (w # map (\<lambda>k. u16_of_reply (respond bus (history bus @ prom_reads (addr priv) i (Suc (Suc k))))) [0..<n])"
      using f(2) app by simp
    also have "\<dots> = acc @ map (\<lambda>k. u16_of_reply (respond bus (history bus @ prom_reads (addr priv) i (Suc k)))) [0..<Suc n]"
      unfolding w0 by (simp only: upt_conv_Cons [of 0 "Suc n"] map_Suc_upt [symmetric] list.map map_map o_def zero_less_Suc if_True)
    finally have ws: "ws = acc @ map (\<lambda>k. u16_of_reply (respond bus (history bus @ prom_reads (addr priv) i (Suc k)))) [0..<Suc n]" .
    have "respond b = respond bus" using ih f(2) by simp
    moreover have "history b = history bus @ prom_reads (addr priv) i (Suc n)"
      using ih app by simp
    moreover have "0 \<le> r" using ih f(1) by simp
    ultimately show ?thesis using ws by simp
  qed
qed

lemma readprom_loop_Inl:
  "readprom_loop priv i n ret acc bus = (Inl e, b) \<Longrightarrow>
     e < 0 \<and> respond b = respond bus \<and> e = rc (respond bus (history b)) \<and>
     (\<exists>k. history b = history bus @ take k (prom_reads (addr priv) i n))"
proof (induction n arbitrary: i ret acc bus)
  case 0
  then show ?case by simp
next
  case (Suc n)
  let ?reg = "word_of_nat (MS58XX_PROM_REG + i * 2) :: u8"
  obtain x bus1 where ru: "ms58xx_readu16 priv ?reg bus = (x, bus1)"
    by (cases "ms58xx_readu16 priv ?reg bus")
  show ?case
  proof (cases x)
    case (Inl e')
    with Suc.prems ru have eq: "e' = e" "bus1 = b" by simp_all
    from ru Inl eq have ru': "ms58xx_readu16 priv ?reg bus = (Inl e, b)" by simp
    note f = readu16_Inl [OF ru']
    from f(3) have "\<exists>k. history b = history bus @ take k (prom_reads (addr priv) i (Suc n))"
    proof
      assume "history b = history bus @ [I2C_Write (addr priv) [?reg]]"
      then have "history b = history bus @ take 1 (prom_reads (addr priv) i (Suc n))" by simp
      then show ?thesis ..
    next
      assume "history b = history bus @ [I2C_Write (addr priv) [?reg], I2C_Read (addr priv) 2]"
      then have "history b = history bus @ take 2 (prom_reads (addr priv) i (Suc n))"
        by (simp add: numeral_2_eq_2)
      then show ?thesis ..
    qed
    with f show ?thesis by simp
  next
    case (Inr rw)
    obtain r1 w where rw: "rw = (r1, w)" by (cases rw)
    from ru Inr rw have ru': "ms58xx_readu16 priv ?reg bus = (Inr (r1, w), bus1)" by simp
    note f = readu16_Inr [OF ru']
    from Suc.prems ru' have rec: "readprom_loop priv (i + 1) n r1 (acc @ [w]) bus1 = (Inl e, b)"
      by simp
    note ih = Suc.IH [OF rec]
    then obtain k where k: "history b = history bus1 @ take k (prom_reads (addr priv) (i + 1) n)"
      by blast
    have "history b = history bus @ take (Suc (Suc k)) (prom_reads (addr priv) i (Suc n))"
      using k f(3) by simp
    then have "\<exists>k. history b = history bus @ take k (prom_reads (addr priv) i (Suc n))" ..
    with ih f(2) show ?thesis by simp
  qed
qed

subsection \<open>The block and its CRC nibble\<close>

lemma nib_hi: "drop_bit 12 (w :: u16) AND 15 = drop_bit 12 w"
proof -
  have "drop_bit 12 (w :: u16) AND mask 4 = drop_bit 12 w"
    by (rule bit_word_eqI) (auto simp: bit_simps dest: bit_imp_le_length)
  then show ?thesis by (simp add: mask_eq_exp_minus_1)
qed

lemma clr_hi: "(w :: u16) AND - 61441 = w AND 4095"
proof -
  have "(w :: u16) AND NOT (push_bit 12 (mask 4)) = w AND mask 12" 
    by (rule bit_word_eqI) (auto simp: bit_simps dest: bit_imp_le_length)
  then show ?thesis by (simp add: mask_eq_exp_minus_1)
qed

lemma clr_lo: "(w :: u16) AND - 16 = w AND 65520"
proof -
  have "(w :: u16) AND NOT (mask 4) = w AND push_bit 4 (mask 12)" 
    by (rule bit_word_eqI) (auto simp: bit_simps dest: bit_imp_le_length)
  then show ?thesis by (simp add: mask_eq_exp_minus_1)
qed

lemma upt_0_7: "[0..<7] = [0, 1, 2, 3, 4, 5, 6]"
  by code_simp

lemma upt_0_8: "[0..<8] = [0, 1, 2, 3, 4, 5, 6, 7]"
  by code_simp

lemma compact_layout:
  "m \<in> compact_models \<Longrightarrow>
     prom_len m = 7 \<and> prom_crcindex m = 0 \<and> prom_crcshift m = 12 \<and> prom_fill m ws = ws @ [0]"
  by (auto simp: compact_models_def prom_len_def prom_crcindex_def prom_crcshift_def
      prom_fill_def MS58XX_PROM_LEN_def)

lemma standard_layout:
  "m \<notin> compact_models \<Longrightarrow>
     prom_len m = 8 \<and> prom_crcindex m = 7 \<and> prom_crcshift m = 0 \<and> prom_fill m ws = ws"
  by (cases m) (simp_all add: compact_models_def prom_len_def prom_crcindex_def
      prom_crcshift_def prom_fill_def MS58XX_PROM_LEN_def)

lemma readprom_loop_words:
  assumes "readprom_loop priv 0 n 0 [] bus = (Inr (r, ws), b)"
  shows "ws = map (prom_word (addr priv) bus) [0..<n]"
    and "history b = history bus @ prom_reads (addr priv) 0 n"
    and "0 \<le> r"
  using readprom_loop_Inr [OF assms] by (simp_all add: prom_word_def)

lemma compact_block:
  assumes "m \<in> compact_models"
  shows "prom_crc m (map W [0..<7] @ [0]) = ucast (drop_bit 12 (W 0 :: u16))"
    and "prom_masked m (map W [0..<7] @ [0]) =
           [W 0 AND 0x0fff, W 1, W 2, W 3, W 4, W 5, W 6, 0]"
  using compact_layout [OF assms]
  by (simp_all add: prom_crc_def prom_masked_def prom_crcmask_def nib_hi clr_hi upt_0_7)

lemma standard_block:
  assumes "m \<notin> compact_models"
  shows "prom_crc m (map W [0..<8]) = ucast ((W 7 :: u16) AND 0xf)"
    and "prom_masked m (map W [0..<8]) =
           [W 0, W 1, W 2, W 3, W 4, W 5, W 6, W 7 AND 0xfff0]"
  using standard_layout [OF assms]
  by (simp_all add: prom_crc_def prom_masked_def prom_crcmask_def clr_lo upt_0_8)

lemma store_coefficients_fields:
  "c1 (store_coefficients priv [w0, w1, w2, w3, w4, w5, w6, w7]) = w1"
  "c2 (store_coefficients priv [w0, w1, w2, w3, w4, w5, w6, w7]) = w2"
  "c3 (store_coefficients priv [w0, w1, w2, w3, w4, w5, w6, w7]) = w3"
  "c4 (store_coefficients priv [w0, w1, w2, w3, w4, w5, w6, w7]) = w4"
  "c5 (store_coefficients priv [w0, w1, w2, w3, w4, w5, w6, w7]) = w5"
  "c6 (store_coefficients priv [w0, w1, w2, w3, w4, w5, w6, w7]) = w6"
  by (simp_all add: store_coefficients_def)

subsection \<open>All or nothing\<close>












subsection \<open>Layout of the block\<close>

lemma readprom_bus:
  "snd (ms58xx_readprom be priv bus) =
     snd (readprom_loop priv 0 (prom_len (model priv)) 0 [] bus)"
  by (simp add: ms58xx_readprom_def Let_def split: prod.splits sum.splits)

lemma readprom_traffic:
  "\<exists>k. history (snd (ms58xx_readprom be priv bus)) =
     history bus @ take k (prom_reads (addr priv) 0 (if model priv \<in> compact_models then 7 else 8))"
proof -
  have len: "prom_len (model priv) = (if model priv \<in> compact_models then 7 else 8)"
    using compact_layout [of "model priv"] standard_layout [of "model priv"] by simp
  obtain x b where lp: "readprom_loop priv 0 (prom_len (model priv)) 0 [] bus = (x, b)"
    by (cases "readprom_loop priv 0 (prom_len (model priv)) 0 [] bus")
  have "\<exists>k. history b = history bus @ take k (prom_reads (addr priv) 0 (prom_len (model priv)))"
  proof (cases x)
    case (Inl e)
    with lp show ?thesis
      using readprom_loop_Inl [of priv 0 "prom_len (model priv)" 0 "[]" bus e b] by simp
  next
    case (Inr rw)
    obtain r ws where rw: "rw = (r, ws)" by (cases rw)
    from lp Inr rw
    have "history b = history bus @ prom_reads (addr priv) 0 (prom_len (model priv))"
      using readprom_loop_Inr [of priv 0 "prom_len (model priv)" 0 "[]" bus r ws b] by simp
    then have "history b = history bus @
        take (length (prom_reads (addr priv) 0 (prom_len (model priv))))
          (prom_reads (addr priv) 0 (prom_len (model priv)))"
      by simp
    then show ?thesis ..
  qed
  with lp len show ?thesis by (simp add: readprom_bus)
qed

lemma readprom_success:
  assumes "0 \<le> fst (fst (ms58xx_readprom be priv bus))"
  obtains r b where
    "readprom_loop priv 0 (prom_len (model priv)) 0 [] bus =
       (Inr (r, map (prom_word (addr priv) bus) [0..<prom_len (model priv)]), b)"
    "history b = history bus @ prom_reads (addr priv) 0 (prom_len (model priv))"
    "prom_crc (model priv)
        (prom_fill (model priv) (map (prom_word (addr priv) bus) [0..<prom_len (model priv)])) =
     ms58xx_crc (prom_bytes be (prom_masked (model priv)
        (prom_fill (model priv) (map (prom_word (addr priv) bus) [0..<prom_len (model priv)]))))"
    "ms58xx_readprom be priv bus =
       ((r, store_coefficients priv (prom_masked (model priv)
          (prom_fill (model priv) (map (prom_word (addr priv) bus) [0..<prom_len (model priv)])))), b)"
proof -
  obtain x b where lp: "readprom_loop priv 0 (prom_len (model priv)) 0 [] bus = (x, b)"
    by (cases "readprom_loop priv 0 (prom_len (model priv)) 0 [] bus")
  show thesis
  proof (cases x)
    case (Inl e)
    from lp Inl have "e < 0" using readprom_loop_Inl [of priv 0 _ 0 "[]" bus e b] by simp
    moreover have "fst (fst (ms58xx_readprom be priv bus)) = e"
      using lp Inl by (simp add: ms58xx_readprom_def)
    ultimately show thesis using assms by simp
  next
    case (Inr rw)
    obtain r ws where rw: "rw = (r, ws)" by (cases rw)
    from lp Inr rw have lp': "readprom_loop priv 0 (prom_len (model priv)) 0 [] bus = (Inr (r, ws), b)"
      by simp
    note w = readprom_loop_words [OF lp']
    have crc: "prom_crc (model priv) (prom_fill (model priv) ws) =
           ms58xx_crc (prom_bytes be (prom_masked (model priv) (prom_fill (model priv) ws)))"
    proof (rule ccontr)
      assume "\<not> ?thesis"
      then have "fst (fst (ms58xx_readprom be priv bus)) = - ENODEV"
        using lp' by (simp add: ms58xx_readprom_def Let_def)
      with assms show False by (simp add: ENODEV_def)
    qed
    then have "ms58xx_readprom be priv bus =
       ((r, store_coefficients priv (prom_masked (model priv) (prom_fill (model priv) ws))), b)"
      using lp' by (simp add: ms58xx_readprom_def Let_def)
    with lp' w crc that show thesis by simp
  qed
qed

lemma readprom_success_layout:
  assumes "0 \<le> fst (fst (ms58xx_readprom be priv bus))"
  shows
   "(model priv \<in> compact_models \<longrightarrow>
       history (snd (ms58xx_readprom be priv bus)) =
         history bus @ prom_reads (addr priv) 0 7 \<and>
       ms58xx_crc (prom_bytes be
         [prom_word (addr priv) bus 0 AND 0x0fff, prom_word (addr priv) bus 1,
          prom_word (addr priv) bus 2, prom_word (addr priv) bus 3,
          prom_word (addr priv) bus 4, prom_word (addr priv) bus 5,
          prom_word (addr priv) bus 6, 0]) =
         ucast (drop_bit 12 (prom_word (addr priv) bus 0))) \<and>
    (model priv \<notin> compact_models \<longrightarrow>
       history (snd (ms58xx_readprom be priv bus)) =
         history bus @ prom_reads (addr priv) 0 8 \<and>
       ms58xx_crc (prom_bytes be
         [prom_word (addr priv) bus 0, prom_word (addr priv) bus 1,
          prom_word (addr priv) bus 2, prom_word (addr priv) bus 3,
          prom_word (addr priv) bus 4, prom_word (addr priv) bus 5,
          prom_word (addr priv) bus 6, prom_word (addr priv) bus 7 AND 0xfff0]) =
         ucast (prom_word (addr priv) bus 7 AND 0xf)) \<and>
    c1 (snd (fst (ms58xx_readprom be priv bus))) = prom_word (addr priv) bus 1 \<and>
    c2 (snd (fst (ms58xx_readprom be priv bus))) = prom_word (addr priv) bus 2 \<and>
    c3 (snd (fst (ms58xx_readprom be priv bus))) = prom_word (addr priv) bus 3 \<and>
    c4 (snd (fst (ms58xx_readprom be priv bus))) = prom_word (addr priv) bus 4 \<and>
    c5 (snd (fst (ms58xx_readprom be priv bus))) = prom_word (addr priv) bus 5 \<and>
    c6 (snd (fst (ms58xx_readprom be priv bus))) = prom_word (addr priv) bus 6"
proof -
  let ?W = "prom_word (addr priv) bus"
  let ?m = "model priv"
  from assms obtain r b where
    h: "history b = history bus @ prom_reads (addr priv) 0 (prom_len ?m)" and
    crc: "prom_crc ?m (prom_fill ?m (map ?W [0..<prom_len ?m])) =
      ms58xx_crc (prom_bytes be (prom_masked ?m (prom_fill ?m (map ?W [0..<prom_len ?m]))))" and
    res: "ms58xx_readprom be priv bus =
       ((r, store_coefficients priv (prom_masked ?m (prom_fill ?m (map ?W [0..<prom_len ?m])))), b)"
    by (rule readprom_success)
  show ?thesis
  proof (cases "?m \<in> compact_models")
    case True
    note l = compact_layout [OF True]
    note k = compact_block [OF True, of ?W]
    from l have fill: "prom_fill ?m (map ?W [0..<prom_len ?m]) = map ?W [0..<7] @ [0]"
      by simp
    from l h have "history b = history bus @ prom_reads (addr priv) 0 7" by simp
    moreover from crc have "ms58xx_crc (prom_bytes be
         [?W 0 AND 0x0fff, ?W 1, ?W 2, ?W 3, ?W 4, ?W 5, ?W 6, 0]) = ucast (drop_bit 12 (?W 0))"
      unfolding fill k by simp
    moreover have "snd (fst (ms58xx_readprom be priv bus)) =
        store_coefficients priv [?W 0 AND 0x0fff, ?W 1, ?W 2, ?W 3, ?W 4, ?W 5, ?W 6, 0]"
      unfolding res fill k by simp
    ultimately show ?thesis using True res by (simp add: store_coefficients_fields)
  next
    case False
    note l = standard_layout [OF False]
    note k = standard_block [OF False, of ?W]
    from l have fill: "prom_fill ?m (map ?W [0..<prom_len ?m]) = map ?W [0..<8]"
      by simp
    from l h have "history b = history bus @ prom_reads (addr priv) 0 8" by simp
    moreover from crc have "ms58xx_crc (prom_bytes be
         [?W 0, ?W 1, ?W 2, ?W 3, ?W 4, ?W 5, ?W 6, ?W 7 AND 0xfff0]) = ucast (?W 7 AND 0xf)"
      unfolding fill k by simp
    moreover have "snd (fst (ms58xx_readprom be priv bus)) =
        store_coefficients priv [?W 0, ?W 1, ?W 2, ?W 3, ?W 4, ?W 5, ?W 6, ?W 7 AND 0xfff0]"
      unfolding res fill k by simp
    ultimately show ?thesis using False res by (simp add: store_coefficients_fields)
  qed
qed

text \<open>
  C7: for the two seven-word models the bus traffic of \<open>ms58xx_readprom\<close> is always a
  prefix of the seven word reads at registers 0xa0 to 0xac, for every other model a
  prefix of the eight word reads at 0xa0 to 0xae.  When the call succeeds, all seven
  (eight) reads were made; for a seven-word model the block checked is the seven words
  read followed by a zero word, with bits 15 to 12 of word 0 cleared, and its CRC equals
  those four bits of word 0; for every other model the block is the eight words read,
  with bits 3 to 0 of word 7 cleared, and its CRC equals those four bits of word 7; and
  C1 to C6 are the words 1 to 6 as the bus delivered them.
\<close>

theorem readprom_layout:
  "(\<exists>k. history (snd (ms58xx_readprom be priv bus)) =
      history bus @
        take k (prom_reads (addr priv) 0 (if model priv \<in> compact_models then 7 else 8))) \<and>
   (0 \<le> fst (fst (ms58xx_readprom be priv bus)) \<longrightarrow>
    (model priv \<in> compact_models \<longrightarrow>
       history (snd (ms58xx_readprom be priv bus)) =
         history bus @ prom_reads (addr priv) 0 7 \<and>
       ms58xx_crc (prom_bytes be
         [prom_word (addr priv) bus 0 AND 0x0fff, prom_word (addr priv) bus 1,
          prom_word (addr priv) bus 2, prom_word (addr priv) bus 3,
          prom_word (addr priv) bus 4, prom_word (addr priv) bus 5,
          prom_word (addr priv) bus 6, 0]) =
         ucast (drop_bit 12 (prom_word (addr priv) bus 0))) \<and>
    (model priv \<notin> compact_models \<longrightarrow>
       history (snd (ms58xx_readprom be priv bus)) =
         history bus @ prom_reads (addr priv) 0 8 \<and>
       ms58xx_crc (prom_bytes be
         [prom_word (addr priv) bus 0, prom_word (addr priv) bus 1,
          prom_word (addr priv) bus 2, prom_word (addr priv) bus 3,
          prom_word (addr priv) bus 4, prom_word (addr priv) bus 5,
          prom_word (addr priv) bus 6, prom_word (addr priv) bus 7 AND 0xfff0]) =
         ucast (prom_word (addr priv) bus 7 AND 0xf)) \<and>
    c1 (snd (fst (ms58xx_readprom be priv bus))) = prom_word (addr priv) bus 1 \<and>
    c2 (snd (fst (ms58xx_readprom be priv bus))) = prom_word (addr priv) bus 2 \<and>
    c3 (snd (fst (ms58xx_readprom be priv bus))) = prom_word (addr priv) bus 3 \<and>
    c4 (snd (fst (ms58xx_readprom be priv bus))) = prom_word (addr priv) bus 4 \<and>
    c5 (snd (fst (ms58xx_readprom be priv bus))) = prom_word (addr priv) bus 5 \<and>
    c6 (snd (fst (ms58xx_readprom be priv bus))) = prom_word (addr priv) bus 6)"
proof (rule conjI)
  show "\<exists>k. history (snd (ms58xx_readprom be priv bus)) =
      history bus @
        take k (prom_reads (addr priv) 0 (if model priv \<in> compact_models then 7 else 8))"
    by (rule readprom_traffic)
next
  show "0 \<le> fst (fst (ms58xx_readprom be priv bus)) \<longrightarrow>
    (model priv \<in> compact_models \<longrightarrow>
       history (snd (ms58xx_readprom be priv bus)) =
         history bus @ prom_reads (addr priv) 0 7 \<and>
       ms58xx_crc (prom_bytes be
         [prom_word (addr priv) bus 0 AND 0x0fff, prom_word (addr priv) bus 1,
          prom_word (addr priv) bus 2, prom_word (addr priv) bus 3,
          prom_word (addr priv) bus 4, prom_word (addr priv) bus 5,
          prom_word (addr priv) bus 6, 0]) =
         ucast (drop_bit 12 (prom_word (addr priv) bus 0))) \<and>
    (model priv \<notin> compact_models \<longrightarrow>
       history (snd (ms58xx_readprom be priv bus)) =
         history bus @ prom_reads (addr priv) 0 8 \<and>
       ms58xx_crc (prom_bytes be
         [prom_word (addr priv) bus 0, prom_word (addr priv) bus 1,
          prom_word (addr priv) bus 2, prom_word (addr priv) bus 3,
          prom_word (addr priv) bus 4, prom_word (addr priv) bus 5,
          prom_word (addr priv) bus 6, prom_word (addr priv) bus 7 AND 0xfff0]) =
         ucast (prom_word (addr priv) bus 7 AND 0xf)) \<and>
    c1 (snd (fst (ms58xx_readprom be priv bus))) = prom_word (addr priv) bus 1 \<and>
    c2 (snd (fst (ms58xx_readprom be priv bus))) = prom_word (addr priv) bus 2 \<and>
    c3 (snd (fst (ms58xx_readprom be priv bus))) = prom_word (addr priv) bus 3 \<and>
    c4 (snd (fst (ms58xx_readprom be priv bus))) = prom_word (addr priv) bus 4 \<and>
    c5 (snd (fst (ms58xx_readprom be priv bus))) = prom_word (addr priv) bus 5 \<and>
    c6 (snd (fst (ms58xx_readprom be priv bus))) = prom_word (addr priv) bus 6"
    by (rule impI) (rule readprom_success_layout)
qed

theorem readprom_layout_witness:
  "(0 \<le> fst (fst (ms58xx_readprom True compact_dev (sensor compact_prom 0 []))) \<and>
    model compact_dev \<in> compact_models \<and>
    history (snd (ms58xx_readprom True compact_dev (sensor compact_prom 0 []))) =
      history (sensor compact_prom 0 []) @ prom_reads (addr compact_dev) 0 7 \<and>
    c1 (snd (fst (ms58xx_readprom True compact_dev (sensor compact_prom 0 [])))) =
      prom_word (addr compact_dev) (sensor compact_prom 0 []) 1) \<and>
   (0 \<le> fst (fst (ms58xx_readprom True sample_dev (sensor sample_prom 0 []))) \<and>
    model sample_dev \<notin> compact_models \<and>
    history (snd (ms58xx_readprom True sample_dev (sensor sample_prom 0 []))) =
      history (sensor sample_prom 0 []) @ prom_reads (addr sample_dev) 0 8 \<and>
    c6 (snd (fst (ms58xx_readprom True sample_dev (sensor sample_prom 0 [])))) =
      prom_word (addr sample_dev) (sensor sample_prom 0 []) 6)"
proof -
  have a: "0 \<le> fst (fst (ms58xx_readprom True compact_dev (sensor compact_prom 0 [])))"
    by code_simp
  have b: "0 \<le> fst (fst (ms58xx_readprom True sample_dev (sensor sample_prom 0 [])))"
    by code_simp
  have m: "model compact_dev \<in> compact_models"
    by (simp add: compact_dev_def compact_models_def)
  have n: "model sample_dev \<notin> compact_models"
    by (simp add: sample_dev_def compact_models_def)
  note c = readprom_layout [of True compact_dev "sensor compact_prom 0 []", THEN conjunct2, rule_format, OF a]
  note s = readprom_layout [of True sample_dev "sensor sample_prom 0 []", THEN conjunct2, rule_format, OF b]
  from c m s n a b show ?thesis
    by blast
qed

section \<open>Registration\<close>

lemma readprom_keeps:
  "model (snd (fst (ms58xx_readprom be priv bus))) = model priv"
  "addr (snd (fst (ms58xx_readprom be priv bus))) = addr priv"
  by (simp_all add: ms58xx_readprom_def store_coefficients_def Let_def
      split: prod.splits sum.splits)

lemma reset_keeps:
  "model (snd (fst (ms58xx_reset be priv bus))) = model priv"
  "addr (snd (fst (ms58xx_reset be priv bus))) = addr priv"
  by (simp_all add: ms58xx_reset_def readprom_keeps Let_def split: prod.splits)

lemma init_keeps:
  "model (init_pressdivs (init_compensation (init_scaling priv))) = model priv"
  "addr (init_pressdivs (init_compensation (init_scaling priv))) = addr priv"
  by (cases "model priv";
      simp add: init_pressdivs_def init_compensation_def init_scaling_def second_order_def)+

lemma register_created:
  assumes "created (ms58xx_register addr0 addr1 be km rd i2c a ratio m) = Some dev"
  shows "register_sanity addr0 addr1 m a \<and> model dev = m \<and> addr dev = a"
proof -
  from assms obtain bus where i2c: "i2c = Some bus"
    by (cases i2c) (simp_all add: ms58xx_register_def created_def)
  from assms i2c have sane: "register_sanity addr0 addr1 m a"
    by (auto simp: ms58xx_register_def created_def split: if_splits)
  from assms i2c sane obtain block where km: "km = Some block"
    by (cases km) (simp_all add: ms58xx_register_def created_def)
  let ?p0 = "block\<lparr>addr := a, model := m, temp := 0, press := 0\<rparr>"
  let ?p1 = "init_pressdivs (init_compensation (init_scaling ?p0))"
  let ?p2 = "snd (ms58xx_setosr ?p1 ratio)"
  let ?p3 = "snd (fst (ms58xx_reset be ?p2 bus))"
  from assms i2c sane km have "dev = ?p3"
    by (auto simp: ms58xx_register_def created_def Let_def split: prod.splits if_splits)
  moreover have "model ?p3 = m" "addr ?p3 = a"
    by (simp_all add: reset_keeps setosr_keeps init_keeps)
  ultimately show ?thesis using sane by simp
qed

text \<open>
  C9: the registration checks the (model, address) pair before anything else happens to
  the device.  For the six models MS5803-02, -05, -07, -14, -30 and MS5806-02 the check
  passes exactly for the two addresses; for the MS5805-02 and the MS5837-30 it passes
  exactly for the first address.  Where it does not pass, the call ends in the failed
  assertion and leaves no device instance; where it passes, the call goes on past the
  assertion.  Every instance a call leaves behind carries a pair that passed the check.
\<close>

theorem register_validates_pair:
  "(m \<in> {MS58XX_MODEL_MS5803_02, MS58XX_MODEL_MS5803_05, MS58XX_MODEL_MS5803_07,
          MS58XX_MODEL_MS5803_14, MS58XX_MODEL_MS5803_30, MS58XX_MODEL_MS5806_02} \<longrightarrow>
      (register_sanity addr0 addr1 m a \<longleftrightarrow> a = addr0 \<or> a = addr1)) \<and>
   (m \<in> {MS58XX_MODEL_MS5805_02, MS58XX_MODEL_MS5837_30} \<longrightarrow>
      (register_sanity addr0 addr1 m a \<longleftrightarrow> a = addr0)) \<and>
   (\<not> register_sanity addr0 addr1 m a \<longrightarrow>
      ms58xx_register addr0 addr1 be km rd i2c a ratio m = Assert_Failed \<and>
      created (ms58xx_register addr0 addr1 be km rd i2c a ratio m) = None) \<and>
   (register_sanity addr0 addr1 m a \<longrightarrow>
      ms58xx_register addr0 addr1 be km rd (Some bus) a ratio m \<noteq> Assert_Failed) \<and>
   (\<forall>dev. created (ms58xx_register addr0 addr1 be km rd i2c a ratio m) = Some dev \<longrightarrow>
      register_sanity addr0 addr1 m a \<and> model dev = m \<and> addr dev = a)"
proof (intro conjI impI allI)
  assume "m \<in> {MS58XX_MODEL_MS5803_02, MS58XX_MODEL_MS5803_05, MS58XX_MODEL_MS5803_07,
          MS58XX_MODEL_MS5803_14, MS58XX_MODEL_MS5803_30, MS58XX_MODEL_MS5806_02}"
  then show "register_sanity addr0 addr1 m a \<longleftrightarrow> a = addr0 \<or> a = addr1"
    by (auto simp: register_sanity_def)
next
  assume "m \<in> {MS58XX_MODEL_MS5805_02, MS58XX_MODEL_MS5837_30}"
  then show "register_sanity addr0 addr1 m a \<longleftrightarrow> a = addr0"
    by (auto simp: register_sanity_def)
next
  assume "\<not> register_sanity addr0 addr1 m a"
  then show "ms58xx_register addr0 addr1 be km rd i2c a ratio m = Assert_Failed"
    by (simp add: ms58xx_register_def split: option.splits)
next
  assume "\<not> register_sanity addr0 addr1 m a"
  then show "created (ms58xx_register addr0 addr1 be km rd i2c a ratio m) = None"
    by (simp add: ms58xx_register_def created_def split: option.splits)
next
  assume "register_sanity addr0 addr1 m a"
  then show "ms58xx_register addr0 addr1 be km rd (Some bus) a ratio m \<noteq> Assert_Failed"
    by (simp add: ms58xx_register_def Let_def split: option.splits prod.splits)
next
  fix dev
  assume "created (ms58xx_register addr0 addr1 be km rd i2c a ratio m) = Some dev"
  then show "register_sanity addr0 addr1 m a" "model dev = m" "addr dev = a"
    using register_created by blast+
qed

theorem register_validates_pair_witness:
  "(\<not> register_sanity 0x76 0x77 MS58XX_MODEL_MS5805_02 0x77 \<and>
    ms58xx_register 0x76 0x77 True (Some sample_dev) 0 (Some (sensor sample_prom 0 []))
      0x77 256 MS58XX_MODEL_MS5805_02 = Assert_Failed) \<and>
   (register_sanity 0x76 0x77 MS58XX_MODEL_MS5803_02 0x77 \<and>
    ms58xx_register 0x76 0x77 True (Some sample_dev) 0 (Some (sensor sample_prom 0 []))
      0x77 256 MS58XX_MODEL_MS5803_02 \<noteq> Assert_Failed) \<and>
   (created (ms58xx_register 0x76 0x77 True (Some sample_dev) 0 (Some (sensor sample_prom 0 []))
      0x76 256 MS58XX_MODEL_MS5803_02) = Some registered_dev \<and>
    model registered_dev = MS58XX_MODEL_MS5803_02 \<and> addr registered_dev = 0x76)"
proof -
  have a: "\<not> register_sanity 0x76 0x77 MS58XX_MODEL_MS5805_02 0x77"
    by (simp add: register_sanity_def)
  have b: "register_sanity 0x76 0x77 MS58XX_MODEL_MS5803_02 0x77"
    by (simp add: register_sanity_def)
  have c: "created (ms58xx_register 0x76 0x77 True (Some sample_dev) 0
      (Some (sensor sample_prom 0 [])) 0x76 256 MS58XX_MODEL_MS5803_02) = Some registered_dev"
    by code_simp
  from a register_validates_pair [of MS58XX_MODEL_MS5805_02 "0x76" "0x77" "0x77" True
      "Some sample_dev" 0 "Some (sensor sample_prom 0 [])" 256 "sensor sample_prom 0 []"]
  have d: "ms58xx_register 0x76 0x77 True (Some sample_dev) 0 (Some (sensor sample_prom 0 []))
      0x77 256 MS58XX_MODEL_MS5805_02 = Assert_Failed"
    by blast
  from b register_validates_pair [of MS58XX_MODEL_MS5803_02 "0x76" "0x77" "0x77" True
      "Some sample_dev" 0 "Some (sensor sample_prom 0 [])" 256 "sensor sample_prom 0 []"]
  have e: "ms58xx_register 0x76 0x77 True (Some sample_dev) 0 (Some (sensor sample_prom 0 []))
      0x77 256 MS58XX_MODEL_MS5803_02 \<noteq> Assert_Failed"
    by blast
  from c register_validates_pair [of MS58XX_MODEL_MS5803_02 "0x76" "0x77" "0x76" True
      "Some sample_dev" 0 "Some (sensor sample_prom 0 [])" 256 "sensor sample_prom 0 []"]
  have f: "model registered_dev = MS58XX_MODEL_MS5803_02 \<and> addr registered_dev = 0x76"
    by blast
  from a b c d e f show ?thesis by blast
qed

end
